theory Spec2Isabelle
  imports Main "HOL-Library.Word" "HOL-Library.Sublist"
begin

section \<open>JavaScript values used by the speaker and the OpenAI client\<close>

text \<open>
  A JavaScript string is a sequence of 16-bit code units; \<open>startsWith\<close>, \<open>replace\<close>,
  \<open>join\<close> and \<open>+\<close> all work on code units. The Chinese literals of the source are
  written as their UTF-16 code units (all of them are in the basic plane, one unit per
  character).
\<close>

type_synonym jsstring = "16 word list"

text \<open>An ASCII literal as a JavaScript string.\<close>

definition ascii :: "string \<Rightarrow> jsstring" where
  "ascii s = map (\<lambda>c. of_nat (of_char c)) s"

text \<open>\<^verbatim>\<open>s.startsWith(e)\<close>: the code units of \<open>e\<close> are the first code units of \<open>s\<close>.\<close>

fun startsWith :: "jsstring \<Rightarrow> jsstring \<Rightarrow> bool" where
  "startsWith s [] = True"
| "startsWith [] (e # es) = False"
| "startsWith (c # cs) (e # es) = (c = e \<and> startsWith cs es)"

text \<open>
  \<^verbatim>\<open>s.replace(pat, "")\<close> with a string pattern: the first occurrence of \<open>pat\<close> in \<open>s\<close> is
  removed; \<open>s\<close> is returned as it is when \<open>pat\<close> does not occur.
\<close>

fun replace_first_empty :: "jsstring \<Rightarrow> jsstring \<Rightarrow> jsstring" where
  "replace_first_empty pat [] = []"
| "replace_first_empty pat (c # cs) =
     (if startsWith (c # cs) pat then drop (length pat) (c # cs)
      else c # replace_first_empty pat cs)"

text \<open>
  Truthiness of an optional string (\<^verbatim>\<open>if (text)\<close>, \<^verbatim>\<open>requestId && ...\<close>): \<open>undefined\<close>
  and the empty string are falsy.
\<close>

fun truthy :: "jsstring option \<Rightarrow> bool" where
  "truthy None = False"
| "truthy (Some s) = (s \<noteq> [])"

text \<open>
  What a call can throw. \<open>TypeError\<close> is the engine's own (iterating \<open>undefined\<close>,
  calling what is not a function);
  \<open>Error msg\<close> stands for any value thrown or rejected by a collaborator.
\<close>

datatype js_error = TypeError | Error jsstring

section \<open>\<^verbatim>\<open>getDefaultSwitchSpeakerPrefix\<close> (ai.ts, lines 295-321)\<close>

text \<open>
  \<^verbatim>\<open>generate(currentSentence, index)\<close> pushes onto the shared array \<open>results\<close>, which the
  model passes through. At \<open>index = words.length\<close> it pushes the joined sentence. Otherwise
  it loops over \<open>words[index]\<close>, pushing each word onto \<open>currentSentence\<close> for the
  recursive call and popping it afterwards, so every call of the loop body sees
  \<open>currentSentence\<close> as it was on entry. Past the end \<open>words[index]\<close> is
  \<open>undefined\<close> and \<^verbatim>\<open>for ... of\<close> throws a TypeError.
  \<open>generate_loop\<close> is the \<^verbatim>\<open>for (const word of words[index])\<close> loop over the words still
  to visit.
\<close>

function generate :: "'a list list list \<Rightarrow> 'a list list \<Rightarrow> nat \<Rightarrow> 'a list list
                        \<Rightarrow> js_error + 'a list list"
  and generate_loop :: "'a list list list \<Rightarrow> 'a list list \<Rightarrow> nat \<Rightarrow> 'a list list
                        \<Rightarrow> 'a list list \<Rightarrow> js_error + 'a list list"
where
  "generate words currentSentence index results =
     (if index = length words then Inr (results @ [concat currentSentence])
      else if index < length words
        then generate_loop words currentSentence index (words ! index) results
      else Inl TypeError)"
| "generate_loop words currentSentence index [] results = Inr results"
| "generate_loop words currentSentence index (word # rest) results =
     (case generate words (currentSentence @ [word]) (index + 1) results of
        Inl e \<Rightarrow> Inl e
      | Inr results' \<Rightarrow> generate_loop words currentSentence index rest results')"
  by pat_completeness auto
termination
  by (relation "measures
        [\<lambda>x. case x of Inl (ws, cur, i, res) \<Rightarrow> length ws - i
                      | Inr (ws, cur, i, todo, res) \<Rightarrow> length ws - Suc i,
         \<lambda>x. case x of Inl (ws, cur, i, res) \<Rightarrow> 0
                      | Inr (ws, cur, i, todo, res) \<Rightarrow> Suc (length todo)]")
     auto

definition generateSentences :: "'a list list list \<Rightarrow> js_error + 'a list list" where
  "generateSentences words = generate words [] 0 []"

definition switch_words :: "jsstring list list" where
  "switch_words =
     [[[0x628A], []],
      [[0x97F3, 0x8272], [0x58F0, 0x97F3]],
      [[0x5207, 0x6362], [0x6362], [0x8C03]],
      [[0x5230], [0x4E3A], [0x6210]]]"

definition getDefaultSwitchSpeakerPrefix :: "js_error + jsstring list" where
  "getDefaultSwitchSpeakerPrefix = generateSentences switch_words"

section \<open>Effects\<close>

text \<open>
  An asynchronous method is a function from the world before the call to its outcome and
  the world after it: \<open>Inr v\<close> when the promise resolves to \<open>v\<close>, \<open>Inl e\<close> when it
  rejects with \<open>e\<close> (a \<^verbatim>\<open>throw\<close> inside an \<^verbatim>\<open>async\<close> function). The world \<open>'w\<close> holds
  everything the methods of this repository do not own: the state of the \<open>Speaker\<close> base
  class, the device, the conversation. Calls to the logger only write to the console and
  are left out.
\<close>

type_synonym ('a, 'w) io = "'w \<Rightarrow> (js_error + 'a) \<times> 'w"

definition io_return :: "'a \<Rightarrow> ('a, 'w) io" where
  "io_return x = (\<lambda>w. (Inr x, w))"

definition io_bind :: "('a, 'w) io \<Rightarrow> ('a \<Rightarrow> ('b, 'w) io) \<Rightarrow> ('b, 'w) io" where
  "io_bind m f = (\<lambda>w. case m w of (Inl e, w') \<Rightarrow> (Inl e, w') | (Inr x, w') \<Rightarrow> f x w')"

text \<open>A call that cannot throw (a synchronous helper).\<close>

definition io_lift :: "('w \<Rightarrow> 'a \<times> 'w) \<Rightarrow> ('a, 'w) io" where
  "io_lift f = (\<lambda>w. case f w of (x, w') \<Rightarrow> (Inr x, w'))"

text \<open>A statement whose value is dropped: \<^verbatim>\<open>await f();\<close>.\<close>

definition io_ignore :: "('a, 'w) io \<Rightarrow> (unit, 'w) io" where
  "io_ignore m = io_bind m (\<lambda>_. io_return ())"

text \<open>\<^verbatim>\<open>if (text) { ... }\<close> for an optional string: the body runs with a non-empty text.\<close>

fun if_text :: "jsstring option \<Rightarrow> (jsstring \<Rightarrow> (unit, 'w) io) \<Rightarrow> (unit, 'w) io" where
  "if_text None body = io_return ()"
| "if_text (Some t) body = (if t \<noteq> [] then body t else io_return ())"

section \<open>The speaker's data (ai.ts, lines 10-139)\<close>

record QueryMessage =
  msg_text :: jsstring
  msg_timestamp :: int

text \<open>
  The argument of \<^verbatim>\<open>this.response({...})\<close>: an object literal with some of the keys
  \<open>text\<close>, \<open>audio\<close>, \<open>keepAlive\<close>, \<open>playSFX\<close> (a key that is not written, or whose value is
  \<open>undefined\<close>, is \<open>None\<close>), or the copy \<^verbatim>\<open>{ ...data.answer }\<close> of an answer.
\<close>

record response_options =
  opt_text :: "jsstring option"
  opt_audio :: "jsstring option"
  opt_keepAlive :: "bool option"
  opt_playSFX :: "bool option"

datatype 'ans response_arg = Options response_options | Spread 'ans

definition say :: "jsstring \<Rightarrow> response_options" where
  "say t = \<lparr>opt_text = Some t, opt_audio = None, opt_keepAlive = None, opt_playSFX = None\<rparr>"

text \<open>
  Modelled from the spec: the type of the field \<open>status\<close> of \<open>Speaker\<close> (speaker.ts is not
  among the sources). Section 3 of the spec gives it the values \<^verbatim>\<open>"running"\<close> and
  \<^verbatim>\<open>"stopped"\<close>; the code only asks whether it is \<^verbatim>\<open>"running"\<close>.
\<close>

datatype speaker_status = Running | Stopped

text \<open>A command of the router: \<^verbatim>\<open>{ match, run }\<close>. Both closures read the live state.\<close>

record 'w SpeakerCommand =
  cmd_match :: "QueryMessage \<Rightarrow> 'w \<Rightarrow> bool"
  cmd_run :: "QueryMessage \<Rightarrow> (unit, 'w) io"

text \<open>
  What \<open>AISpeaker\<close> uses and this repository's sources do not define: the methods and
  fields it inherits from \<open>Speaker\<close> (speaker.ts) and \<open>pickOne\<close> (utils/base). They are
  parameters of the model, so every theorem holds whatever they do.
  \<^item> \<open>response\<close> resolves to the playback result, a string or \<open>None\<close> for
    \<open>null\<close>/\<open>undefined\<close> (the code only tests it with \<^verbatim>\<open>== null\<close> and \<^verbatim>\<open>=== "error"\<close>);
  \<^item> \<open>super_enterKeepAlive\<close>, \<open>super_exitKeepAlive\<close> are the overridden methods of the
    base class;
  \<^item> \<open>checkIfHasNewMsg msg w\<close> is the \<open>hasNewMsg\<close> closure made from the world \<open>w\<close> of the
    call: applied to a later world, it tells whether a new message has arrived since;
  \<^item> \<open>keepAlive\<close>, \<open>streamResponse\<close>, \<open>audioBeep\<close>, \<open>status\<close> and \<open>custom_commands\<close> (the
    field \<^verbatim>\<open>_commands\<close>) read fields of the base class;
  \<^item> \<open>pickOne\<close> picks an element of a list, or \<open>undefined\<close>;
  \<^item> \<open>resume\<close> is what the rest of the program does to the world between the moment an
    awaited promise settles and the moment the awaiting function runs again.
\<close>

record ('w, 'ans) Speaker =
  response :: "'ans response_arg \<Rightarrow> (jsstring option, 'w) io"
  wakeUp :: "(unit, 'w) io"
  unWakeUp :: "(unit, 'w) io"
  switchSpeaker :: "jsstring \<Rightarrow> (bool, 'w) io"
  super_enterKeepAlive :: "(unit, 'w) io"
  super_exitKeepAlive :: "(unit, 'w) io"
  checkIfHasNewMsg :: "QueryMessage \<Rightarrow> 'w \<Rightarrow> ('w \<Rightarrow> bool)"
  keepAlive :: "'w \<Rightarrow> bool"
  streamResponse :: "'w \<Rightarrow> bool"
  audioBeep :: "'w \<Rightarrow> bool"
  status :: "'w \<Rightarrow> speaker_status"
  custom_commands :: "'w \<Rightarrow> 'w SpeakerCommand list"
  pickOne :: "jsstring list \<Rightarrow> 'w \<Rightarrow> jsstring option \<times> 'w"
  resume :: "'w \<Rightarrow> 'w"

text \<open>\<^verbatim>\<open>await m\<close>: \<open>m\<close> settles, then the caller is resumed.\<close>

definition await :: "('w, 'ans) Speaker \<Rightarrow> ('a, 'w) io \<Rightarrow> ('a, 'w) io" where
  "await ops m = (\<lambda>w. case m w of (r, w') \<Rightarrow> (r, resume ops w'))"

text \<open>The fields \<open>AISpeaker\<close> declares itself (lines 94-106).\<close>

record ('w, 'ans) AISpeaker =
  askAI :: "(QueryMessage \<Rightarrow> ('ans option, 'w) io) option"
  name :: jsstring
  switchSpeakerKeywords :: "jsstring list"
  onEnterAI :: "jsstring list"
  onExitAI :: "jsstring list"
  callAIKeywords :: "jsstring list"
  wakeUpKeywords :: "jsstring list"
  exitKeywords :: "jsstring list"
  onAIAsking :: "jsstring list"
  onAIReplied :: "jsstring list"
  onAIError :: "jsstring list"
  audioActive :: "jsstring option"
  audioError :: "jsstring option"

text \<open>\<open>AISpeakerConfig\<close>: every key is optional; \<open>None\<close> is a key left \<open>undefined\<close>.\<close>

record ('w, 'ans) AISpeakerConfig =
  cfg_askAI :: "(QueryMessage \<Rightarrow> ('ans option, 'w) io) option"
  cfg_name :: "jsstring option"
  cfg_switchSpeakerKeywords :: "jsstring list option"
  cfg_callAIKeywords :: "jsstring list option"
  cfg_wakeUpKeywords :: "jsstring list option"
  cfg_exitKeywords :: "jsstring list option"
  cfg_onEnterAI :: "jsstring list option"
  cfg_onExitAI :: "jsstring list option"
  cfg_onAIAsking :: "jsstring list option"
  cfg_onAIReplied :: "jsstring list option"
  cfg_onAIError :: "jsstring list option"
  cfg_audioActive :: "jsstring option"
  cfg_audioError :: "jsstring option"

record process_env =
  AUDIO_ACTIVE :: "jsstring option"
  AUDIO_ERROR :: "jsstring option"

text \<open>A destructuring default, \<^verbatim>\<open>const { key = d } = config\<close>.\<close>

fun or_default :: "'a option \<Rightarrow> 'a \<Rightarrow> 'a" where
  "or_default None d = d"
| "or_default (Some v) d = v"

text \<open>
  The constructor (lines 108-139), after \<^verbatim>\<open>super(config)\<close>, which builds the base class's
  part of the object. The defaults are the source's literals; \<open>switchSpeakerKeywords\<close> uses
  \<^verbatim>\<open>??\<close>, the others destructuring defaults, and \<open>audioActive\<close>, \<open>audioError\<close> default to
  the environment variables.
\<close>

definition AISpeaker_constructor ::
  "process_env \<Rightarrow> ('w, 'ans) AISpeakerConfig \<Rightarrow> js_error + ('w, 'ans) AISpeaker" where
  "AISpeaker_constructor env config =
     (case (case cfg_switchSpeakerKeywords config of
              Some ks \<Rightarrow> Inr ks
            | None \<Rightarrow> getDefaultSwitchSpeakerPrefix) of
        Inl e \<Rightarrow> Inl e
      | Inr ks \<Rightarrow> Inr
         \<lparr>askAI = cfg_askAI config,
          name = or_default (cfg_name config) [0x50BB, 0x599E],
          switchSpeakerKeywords = ks,
          onEnterAI = or_default (cfg_onEnterAI config)
            [[0x4F60, 0x597D, 0xFF0C, 0x6211, 0x662F, 0x50BB, 0x599E, 0xFF0C, 0x5F88, 0x9AD8,
              0x5174, 0x8BA4, 0x8BC6, 0x4F60]],
          onExitAI = or_default (cfg_onExitAI config) [[0x50BB, 0x599E, 0x5DF2, 0x9000, 0x51FA]],
          callAIKeywords = or_default (cfg_callAIKeywords config)
            [[0x8BF7], [0x4F60], [0x50BB, 0x599E]],
          wakeUpKeywords = or_default (cfg_wakeUpKeywords config)
            [[0x6253, 0x5F00], [0x8FDB, 0x5165], [0x53EC, 0x5524]],
          exitKeywords = or_default (cfg_exitKeywords config)
            [[0x5173, 0x95ED], [0x9000, 0x51FA], [0x518D, 0x89C1]],
          onAIAsking = or_default (cfg_onAIAsking config)
            [[0x8BA9, 0x6211, 0x5148, 0x60F3, 0x60F3], [0x8BF7, 0x7A0D, 0x7B49]],
          onAIReplied = or_default (cfg_onAIReplied config)
            [[0x6211, 0x8BF4, 0x5B8C, 0x4E86],
             [0x8FD8, 0x6709, 0x5176, 0x4ED6, 0x95EE, 0x9898, 0x5417]],
          onAIError = or_default (cfg_onAIError config)
            [[0x554A, 0x54E6, 0xFF0C, 0x51FA, 0x9519, 0x4E86, 0xFF0C, 0x8BF7, 0x7A0D, 0x540E,
              0x518D, 0x8BD5, 0x5427, 0xFF01]],
          audioActive =
            (case cfg_audioActive config of None \<Rightarrow> AUDIO_ACTIVE env | Some a \<Rightarrow> Some a),
          audioError =
            (case cfg_audioError config of None \<Rightarrow> AUDIO_ERROR env | Some a \<Rightarrow> Some a)\<rparr>)"

section \<open>Keep-alive mode (ai.ts, lines 141-166)\<close>

text \<open>
  The notice spoken when streaming is off,
  \<^verbatim>\<open>"... (streamResponse) ..."\<close>: streaming responses are switched off, continuous
  conversation cannot be used.
\<close>

definition stream_off_notice :: jsstring where
  "stream_off_notice =
     [0x60A8, 0x5DF2, 0x5173, 0x95ED, 0x6D41, 0x5F0F, 0x54CD, 0x5E94, 0x0028, 0x0073, 0x0074,
      0x0072, 0x0065, 0x0061, 0x006D, 0x0052, 0x0065, 0x0073, 0x0070, 0x006F, 0x006E, 0x0073,
      0x0065, 0x0029, 0xFF0C, 0x65E0, 0x6CD5, 0x4F7F, 0x7528, 0x8FDE, 0x7EED, 0x5BF9, 0x8BDD,
      0x6A21, 0x5F0F]"

definition enterKeepAlive :: "('w, 'ans) Speaker \<Rightarrow> ('w, 'ans) AISpeaker \<Rightarrow> (unit, 'w) io" where
  "enterKeepAlive ops this = (\<lambda>w.
     if \<not> streamResponse ops w
     then io_ignore (await ops (response ops (Options (say stream_off_notice)))) w
     else
       io_bind (io_lift (pickOne ops (onEnterAI this))) (\<lambda>text.
       io_bind (if_text text (\<lambda>t. io_ignore (await ops (response ops
           (Options ((say t)\<lparr>opt_keepAlive := Some True\<rparr>)))))) (\<lambda>_.
       await ops (super_enterKeepAlive ops))) w)"

definition exitKeepAlive :: "('w, 'ans) Speaker \<Rightarrow> ('w, 'ans) AISpeaker \<Rightarrow> (unit, 'w) io" where
  "exitKeepAlive ops this =
     io_bind (await ops (super_exitKeepAlive ops)) (\<lambda>_.
     io_bind (io_lift (pickOne ops (onExitAI this))) (\<lambda>text.
     io_bind (if_text text (\<lambda>t. io_ignore (await ops (response ops
           (Options ((say t) \<lparr>opt_keepAlive := Some False, opt_playSFX := Some False\<rparr>)))))) (\<lambda>_.
     await ops (unWakeUp ops))))"

section \<open>The answer pipeline (ai.ts, lines 215-292)\<close>

text \<open>
  The result bag \<open>data\<close> is an object with the optional keys \<open>answer\<close> and \<open>res\<close>: a map
  from keys to values, so that the spread \<^verbatim>\<open>{ ...data, ...res.data }\<close> is \<open>data ++ d\<close>.
  A key can be present with the value \<open>undefined\<close> (\<open>Answer None\<close>); reading it gives the
  same as reading an absent key.
\<close>

datatype bag_key = Key_answer | Key_res

datatype 'ans bag_value = Answer "'ans option" | Res "jsstring option"

type_synonym 'ans bag = "bag_key \<rightharpoonup> 'ans bag_value"

definition data_answer :: "'ans bag \<Rightarrow> 'ans option" where
  "data_answer data = (case data Key_answer of Some (Answer a) \<Rightarrow> a | _ \<Rightarrow> None)"

definition data_res :: "'ans bag \<Rightarrow> jsstring option" where
  "data_res data = (case data Key_res of Some (Res r) \<Rightarrow> r | _ \<Rightarrow> None)"

text \<open>
  What a step resolves to: \<^verbatim>\<open>{ stop?, data? }\<close> or nothing (\<open>None\<close>). \<open>res_stop\<close> is the
  truthiness of \<open>stop\<close>.
\<close>

record 'ans step_result =
  res_stop :: bool
  res_data :: "'ans bag option"

type_synonym ('w, 'ans) AnswerStep =
  "QueryMessage \<Rightarrow> 'ans bag \<Rightarrow> ('ans step_result option, 'w) io"

text \<open>The six closures of \<^verbatim>\<open>_askAIForAnswerSteps\<close>, in the order of the array literal.\<close>

definition askAIForAnswerSteps ::
  "('w, 'ans) Speaker \<Rightarrow> ('w, 'ans) AISpeaker \<Rightarrow> ('w, 'ans) AnswerStep list" where
  "askAIForAnswerSteps ops this =
     [\<lambda>msg data.
        io_bind (io_lift (pickOne ops (onAIAsking this))) (\<lambda>text.
        io_bind (if_text text (\<lambda>t. io_ignore (await ops (response ops
           (Options ((say t)\<lparr>opt_audio := audioActive this\<rparr>)))))) (\<lambda>_.
        io_return None)),
      \<lambda>msg data.
        io_bind (await ops (case askAI this of
                              None \<Rightarrow> io_return None
                            | Some f \<Rightarrow> f msg)) (\<lambda>answer.
        io_return (Some \<lparr>res_stop = False, res_data = Some [Key_answer \<mapsto> Answer answer]\<rparr>)),
      \<lambda>msg data.
        (case data_answer data of
           Some a \<Rightarrow>
             io_bind (await ops (response ops (Spread a))) (\<lambda>res.
             io_return (Some \<lparr>res_stop = False, res_data = Some (data(Key_res \<mapsto> Res res))\<rparr>))
         | None \<Rightarrow> io_return None),
      \<lambda>msg data. (\<lambda>w.
        if data_answer data \<noteq> None \<and> data_res data = None
           \<and> \<not> audioBeep ops w \<and> streamResponse ops w
        then
          io_bind (io_lift (pickOne ops (onAIReplied this))) (\<lambda>text.
          io_bind (if_text text (\<lambda>t. io_ignore (await ops (response ops
           (Options (say t)))))) (\<lambda>_.
          io_return None)) w
        else io_return None w),
      \<lambda>msg data.
        if data_res data = Some (ascii ''error'')
        then
          io_bind (io_lift (pickOne ops (onAIError this))) (\<lambda>text.
          io_bind (if_text text (\<lambda>t. io_ignore (await ops (response ops
           (Options ((say t)\<lparr>opt_audio := audioError this\<rparr>)))))) (\<lambda>_.
          io_return None))
        else io_return None,
      \<lambda>msg data. (\<lambda>w.
        if keepAlive ops w
        then io_bind (await ops (wakeUp ops)) (\<lambda>_. io_return None) w
        else io_return None w)]"

text \<open>
  In the words of the claims, to "speak a phrase" of a list is: pick one; if a non-empty
  text was picked, call \<open>response\<close> with the options made from it and wait for it. The
  steps are compared with this description below.
\<close>

definition speak ::
  "('w, 'ans) Speaker \<Rightarrow> jsstring list \<Rightarrow> (jsstring \<Rightarrow> response_options) \<Rightarrow> (unit, 'w) io" where
  "speak ops phrases options = (\<lambda>w.
     case pickOne ops phrases w of
       (None, w1) \<Rightarrow> (Inr (), w1)
     | (Some t, w1) \<Rightarrow>
         if t = [] then (Inr (), w1)
         else (case response ops (Options (options t)) w1 of
                 (Inl e, w2) \<Rightarrow> (Inl e, resume ops w2)
               | (Inr _, w2) \<Rightarrow> (Inr (), resume ops w2)))"

text \<open>
  How the loop of \<open>askAIForAnswer\<close> was left: by the \<^verbatim>\<open>return\<close> of the supersession
  check, by \<^verbatim>\<open>break\<close>, or by running out of steps.
\<close>

datatype loop_end = Completed | Broke | Interrupted

text \<open>
  A run of the loop. \<open>outcome\<close> and \<open>world\<close> are what the program produces: how the loop
  ended, or the error a step threw, and the world then. \<open>completed\<close> and \<open>bag\<close> are kept
  for the statements below: \<open>completed\<close> lists the steps that returned, each with its
  index in the array and the world in which the check after it was made; \<open>bag\<close> is the
  value of \<open>data\<close> at the end. Every step that was called is in \<open>completed\<close>, except one
  that threw: its error is then the outcome.
\<close>

record ('w, 'ans) run =
  outcome :: "js_error + loop_end"
  completed :: "(nat \<times> 'w) list"
  bag :: "'ans bag"
  world :: 'w

text \<open>
  \<^verbatim>\<open>for (const action of steps)\<close>, from the step with index \<open>i\<close> on: the step is awaited;
  if it throws, the loop (and \<open>askAIForAnswer\<close>, which has no \<^verbatim>\<open>try\<close>) ends with the
  error; then the check \<^verbatim>\<open>hasNewMsg() || this.status !== "running"\<close> returns; then the
  data of the result is merged into the bag; then \<open>stop\<close> breaks.
\<close>

fun run_steps ::
  "('w, 'ans) Speaker \<Rightarrow> QueryMessage \<Rightarrow> ('w \<Rightarrow> bool) \<Rightarrow> nat \<Rightarrow> ('w, 'ans) AnswerStep list
     \<Rightarrow> 'ans bag \<Rightarrow> 'w \<Rightarrow> ('w, 'ans) run" where
  "run_steps ops msg hasNewMsg i [] data w =
     \<lparr>outcome = Inr Completed, completed = [], bag = data, world = w\<rparr>"
| "run_steps ops msg hasNewMsg i (action # rest) data w =
     (case await ops (action msg data) w of
        (Inl e, w') \<Rightarrow> \<lparr>outcome = Inl e, completed = [], bag = data, world = w'\<rparr>
      | (Inr res, w') \<Rightarrow>
          if hasNewMsg w' \<or> status ops w' \<noteq> Running
          then \<lparr>outcome = Inr Interrupted, completed = [(i, w')], bag = data, world = w'\<rparr>
          else
            let data' = (case res of
                           Some r \<Rightarrow> (case res_data r of Some d \<Rightarrow> data ++ d | None \<Rightarrow> data)
                         | None \<Rightarrow> data)
            in if (case res of Some r \<Rightarrow> res_stop r | None \<Rightarrow> False)
               then \<lparr>outcome = Inr Broke, completed = [(i, w')], bag = data', world = w'\<rparr>
               else
                 (let r = run_steps ops msg hasNewMsg (i + 1) rest data' w'
                  in r\<lparr>completed := (i, w') # completed r\<rparr>))"

definition askAIForAnswer_run ::
  "('w, 'ans) Speaker \<Rightarrow> ('w, 'ans) AISpeaker \<Rightarrow> QueryMessage \<Rightarrow> 'w \<Rightarrow> ('w, 'ans) run" where
  "askAIForAnswer_run ops this msg w =
     (let hasNewMsg = checkIfHasNewMsg ops msg w
      in run_steps ops msg hasNewMsg 0 (askAIForAnswerSteps ops this) Map.empty w)"

text \<open>\<open>askAIForAnswer\<close> itself: it resolves to nothing however the loop ended, or rejects.\<close>

definition askAIForAnswer ::
  "('w, 'ans) Speaker \<Rightarrow> ('w, 'ans) AISpeaker \<Rightarrow> QueryMessage \<Rightarrow> (unit, 'w) io" where
  "askAIForAnswer ops this msg = (\<lambda>w.
     let r = askAIForAnswer_run ops this msg w
     in (map_sum id (\<lambda>_. ()) (outcome r), world r))"

section \<open>The command list (ai.ts, lines 168-213)\<close>

text \<open>
  The texts of the speaker-switch command: "switching the voice, please wait...",
  "the voice is switched!", "switching the voice failed!".
\<close>

definition switching_text :: jsstring where
  "switching_text =
     [0x6B63, 0x5728, 0x5207, 0x6362, 0x97F3, 0x8272, 0xFF0C, 0x8BF7, 0x7A0D, 0x7B49,
      0x002E, 0x002E, 0x002E]"

definition switched_text :: jsstring where
  "switched_text = [0x97F3, 0x8272, 0x5DF2, 0x5207, 0x6362, 0xFF01]"

definition switch_failed_text :: jsstring where
  "switch_failed_text = [0x97F3, 0x8272, 0x5207, 0x6362, 0x5931, 0x8D25, 0xFF01]"

text \<open>
  The handler of the speaker-switch command. \<^verbatim>\<open>find(...)!\<close> is \<open>undefined\<close> when no
  keyword is a prefix, and \<^verbatim>\<open>replace(undefined, "")\<close> then looks for the text
  \<open>undefined\<close>.
\<close>

definition switchSpeaker_run ::
  "('w, 'ans) Speaker \<Rightarrow> ('w, 'ans) AISpeaker \<Rightarrow> QueryMessage \<Rightarrow> (unit, 'w) io" where
  "switchSpeaker_run ops this msg =
     io_bind (await ops (response ops (Options (say switching_text)))) (\<lambda>_.
     let prefix = (case find (\<lambda>e. startsWith (msg_text msg) e) (switchSpeakerKeywords this) of
                     Some e \<Rightarrow> e
                   | None \<Rightarrow> ascii ''undefined'');
         speaker = replace_first_empty prefix (msg_text msg)
     in
     io_bind (await ops (switchSpeaker ops speaker)) (\<lambda>success. (\<lambda>w.
     io_ignore (await ops (response ops
       (Options ((say (if success then switched_text else switch_failed_text))
          \<lparr>opt_keepAlive := Some (keepAlive ops w)\<rparr>)))) w)))"

text \<open>
  The getter \<open>commands\<close>, read in the world \<open>w\<close> (which gives \<^verbatim>\<open>this._commands\<close>). The
  \<open>match\<close> closures read \<open>keepAlive\<close> when they are called.
\<close>

definition commands ::
  "('w, 'ans) Speaker \<Rightarrow> ('w, 'ans) AISpeaker \<Rightarrow> 'w \<Rightarrow> 'w SpeakerCommand list" where
  "commands ops this w =
     [\<lparr>cmd_match = (\<lambda>msg w'.
          \<not> keepAlive ops w' \<and> list_ex (\<lambda>e. startsWith (msg_text msg) e) (wakeUpKeywords this)),
       cmd_run = (\<lambda>msg. enterKeepAlive ops this)\<rparr>,
      \<lparr>cmd_match = (\<lambda>msg w'.
          keepAlive ops w' \<and> list_ex (\<lambda>e. startsWith (msg_text msg) e) (exitKeywords this)),
       cmd_run = (\<lambda>msg. exitKeepAlive ops this)\<rparr>,
      \<lparr>cmd_match = (\<lambda>msg w'.
          list_ex (\<lambda>e. startsWith (msg_text msg) e) (switchSpeakerKeywords this)),
       cmd_run = (\<lambda>msg. switchSpeaker_run ops this msg)\<rparr>]
     @ custom_commands ops w
     @ [\<lparr>cmd_match = (\<lambda>msg w'.
          keepAlive ops w' \<or> list_ex (\<lambda>e. startsWith (msg_text msg) e) (callAIKeywords this)),
         cmd_run = (\<lambda>msg. askAIForAnswer ops this msg)\<rparr>]"

section \<open>The OpenAI client (unnamed/part_000)\<close>

text \<open>
  The state the client works on: its own fields \<open>deployment\<close>, \<open>client\<close> (the field
  \<^verbatim>\<open>_client\<close>) and \<open>abortCallbacks\<close> (the field \<^verbatim>\<open>_abortCallbacks\<close>), and around them the
  controllers that have been told to abort and the rest of the program (\<open>outside\<close>).

  \<open>abortCallbacks\<close> holds the own keys of the object literal \<^verbatim>\<open>{}\<close> that the client uses
  as a dictionary from request ids to callbacks; \<^verbatim>\<open>Object.keys\<close> and \<^verbatim>\<open>delete\<close> see these
  and nothing else. Reading a name that is no own key goes on to the prototype of the
  object, \<^verbatim>\<open>Object.prototype\<close> (see \<open>Object_prototype\<close> below). Each callback is
  \<^verbatim>\<open>() => controller.abort()\<close> for some controller, and is modelled by that controller,
  of type \<open>'h\<close>: calling it appends the controller to \<open>aborted\<close>.
\<close>

datatype sdk_client = AzureOpenAI "jsstring option" | OpenAI

record ('h, 'x) client_world =
  deployment :: "jsstring option"
  client :: "sdk_client option"
  abortCallbacks :: "jsstring \<rightharpoonup> 'h"
  aborted :: "'h list"
  outside :: 'x

text \<open>The environment variables the client reads (utils/env).\<close>

record kEnvs =
  AZURE_OPENAI_DEPLOYMENT :: "jsstring option"
  AZURE_OPENAI_API_KEY :: "jsstring option"
  OPENAI_MODEL :: "jsstring option"
  QWEN_ENABLE_SEARCH :: bool

text \<open>\<^verbatim>\<open>_init()\<close> (lines 33-43). The constructors of the SDK are taken to succeed.\<close>

definition init :: "kEnvs \<Rightarrow> ('h, 'x) client_world \<Rightarrow> ('h, 'x) client_world" where
  "init env c =
     (let c1 = c\<lparr>deployment := AZURE_OPENAI_DEPLOYMENT env\<rparr>
      in case client c1 of
           None \<Rightarrow> c1\<lparr>client := Some (if truthy (AZURE_OPENAI_API_KEY env)
                                         then AzureOpenAI (deployment c1) else OpenAI)\<rparr>
         | Some _ \<Rightarrow> c1)"

text \<open>
  \<^verbatim>\<open>this._abortCallbacks[requestId] = callback\<close> and
  \<^verbatim>\<open>delete this._abortCallbacks[requestId]\<close>. The assignment makes or overwrites an own
  key for every name but one: at \<^verbatim>\<open>__proto__\<close> it would run the setter that
  \<^verbatim>\<open>Object.prototype\<close> has for that name and replace the prototype of the object. The
  request ids that \<open>chat\<close> and \<open>chatStream\<close> register are taken to be other names (the
  caller among the sources passes \<open>randomUUID()\<close>).
\<close>

definition register :: "jsstring \<Rightarrow> 'h \<Rightarrow> ('h, 'x) client_world \<Rightarrow> ('h, 'x) client_world" where
  "register requestId callback c = c\<lparr>abortCallbacks := (abortCallbacks c)(requestId \<mapsto> callback)\<rparr>"

definition unregister :: "jsstring \<Rightarrow> ('h, 'x) client_world \<Rightarrow> ('h, 'x) client_world" where
  "unregister requestId c = c\<lparr>abortCallbacks := (abortCallbacks c)(requestId := None)\<rparr>"

text \<open>Calling a registered callback: its controller is told to abort.\<close>

definition run_callback :: "'h \<Rightarrow> ('h, 'x) client_world \<Rightarrow> ('h, 'x) client_world" where
  "run_callback callback c = c\<lparr>aborted := aborted c @ [callback]\<rparr>"

text \<open>
  What \<^verbatim>\<open>this._abortCallbacks[key]\<close> yields for a name that is no own key: the property
  of that name of \<^verbatim>\<open>Object.prototype\<close>, which is \<open>undefined\<close> (\<open>Absent\<close>), an object that
  is not a function, or a function, given by what the call
  \<^verbatim>\<open>this._abortCallbacks[key]()\<close> does: it is made on the registry object, with no
  arguments.
\<close>

datatype ('h, 'x) property =
    Absent
  | Object_value
  | Function "(unit, ('h, 'x) client_world) io"

text \<open>
  The twelve properties of \<^verbatim>\<open>Object.prototype\<close> that have a string for a name (ECMAScript,
  sections 20.1.3 and B.2.2):
  \<^item> \<^verbatim>\<open>__proto__\<close> is an accessor; its getter returns the prototype of the registry
    object, which is \<^verbatim>\<open>Object.prototype\<close> itself: an object, not a function;
  \<^item> \<^verbatim>\<open>__defineGetter__\<close> and \<^verbatim>\<open>__defineSetter__\<close> throw a \<open>TypeError\<close> when their second
    argument is not a function, and here it is \<open>undefined\<close>;
  \<^item> \<^verbatim>\<open>toLocaleString\<close> calls the method \<^verbatim>\<open>toString\<close> of the object it is called on: the
    callback registered for the request id \<^verbatim>\<open>toString\<close> if there is one, and otherwise the
    inherited \<^verbatim>\<open>toString\<close>, which returns;
  \<^item> \<^verbatim>\<open>constructor\<close> (the function \<^verbatim>\<open>Object\<close>), \<^verbatim>\<open>hasOwnProperty\<close>, \<^verbatim>\<open>isPrototypeOf\<close>,
    \<^verbatim>\<open>propertyIsEnumerable\<close>, \<^verbatim>\<open>toString\<close>, \<^verbatim>\<open>valueOf\<close>, \<^verbatim>\<open>__lookupGetter__\<close> and
    \<^verbatim>\<open>__lookupSetter__\<close> return without calling anything and without changing the object.
\<close>

definition Object_prototype :: "jsstring \<Rightarrow> ('h, 'x) property" where
  "Object_prototype key =
     (if key = ascii ''__proto__'' then Object_value
      else if key = ascii ''__defineGetter__'' \<or> key = ascii ''__defineSetter__''
        then Function (\<lambda>c. (Inl TypeError, c))
      else if key = ascii ''toLocaleString''
        then Function (\<lambda>c. case abortCallbacks c (ascii ''toString'') of
                              Some callback \<Rightarrow> (Inr (), run_callback callback c)
                            | None \<Rightarrow> (Inr (), c))
      else if key \<in> set (map ascii [''constructor'', ''hasOwnProperty'', ''isPrototypeOf'',
                                     ''propertyIsEnumerable'', ''toString'', ''valueOf'',
                                     ''__lookupGetter__'', ''__lookupSetter__''])
        then Function (\<lambda>c. (Inr (), c))
      else Absent)"

text \<open>
  \<^verbatim>\<open>cancel(requestId)\<close> (lines 49-55). \<^verbatim>\<open>if (this._abortCallbacks[requestId])\<close> reads
  the own key or, when there is none, the inherited property; a callback, an object and
  a function are truthy, \<open>undefined\<close> is not. Then the value is called, which throws a
  \<open>TypeError\<close> when it is not a function, and after the call the own key is deleted.
\<close>

definition cancel :: "kEnvs \<Rightarrow> jsstring \<Rightarrow> (unit, ('h, 'x) client_world) io" where
  "cancel env requestId = (\<lambda>c.
     let c1 = init env c
     in case abortCallbacks c1 requestId of
          Some callback \<Rightarrow> (Inr (), unregister requestId (run_callback callback c1))
        | None \<Rightarrow>
            (case Object_prototype requestId of
               Absent \<Rightarrow> (Inr (), c1)
             | Object_value \<Rightarrow> (Inl TypeError, c1)
             | Function call \<Rightarrow>
                 (case call c1 of
                    (Inl e, c2) \<Rightarrow> (Inl e, c2)
                  | (Inr _, c2) \<Rightarrow> (Inr (), unregister requestId c2))))"

text \<open>
  \<open>ChatOptions\<close> (lines 14-23). \<open>trace\<close> only guards logging and is left out.
\<close>

record 't ChatOptions =
  chat_user :: jsstring
  chat_system :: "jsstring option"
  chat_model :: "jsstring option"
  chat_tools :: "'t option"
  chat_jsonMode :: bool
  chat_requestId :: "jsstring option"
  chat_enableSearch :: "bool option"

text \<open>The body of the request handed to \<^verbatim>\<open>chat.completions.create\<close>.\<close>

record 't chat_request =
  req_model :: jsstring
  req_tools :: "'t option"
  req_stream :: bool
  req_messages :: "(string \<times> jsstring option) list"
  req_json_object :: bool
  req_enable_search :: bool

text \<open>
  The stream that \<^verbatim>\<open>create({ stream: true })\<close> resolves to, as the loop
  \<^verbatim>\<open>for await (const chunk of stream)\<close> sees it. The loop awaits the iterator once per
  round; while it waits, the rest of the program runs (other requests, calls of
  \<open>cancel\<close>), which is a function on the world. So a stream that ends is
  \<^item> \<open>events\<close>: for each chunk, what the program did while the loop waited for it, and
    the chunk, given by the optional \<open>delta.content\<close> of each of its choices;
  \<^item> \<open>ending\<close>: what the program did while the loop waited for the end, and whether the
    iterator ended (\<open>None\<close>) or threw;
  \<^item> \<open>closing\<close>: what happens while the iterator is closed, when the loop is left by
    \<^verbatim>\<open>break\<close> or by an exception of its body;
  \<^item> \<open>controller\<close>: the stream's abort controller.
\<close>

type_synonym chunk = "jsstring option list"

record ('h, 'x) chat_stream =
  controller :: 'h
  events :: "((('h, 'x) client_world \<Rightarrow> ('h, 'x) client_world) \<times> chunk) list"
  ending :: "(('h, 'x) client_world \<Rightarrow> ('h, 'x) client_world) \<times> js_error option"
  closing :: "('h, 'x) client_world \<Rightarrow> ('h, 'x) client_world"

text \<open>
  What the client calls and the sources do not define: the SDK's
  \<^verbatim>\<open>chat.completions.create\<close>, without and with \<^verbatim>\<open>stream: true\<close>, each with everything
  that happens in the world while the call is awaited; \<open>isNotEmpty\<close> (utils/is);
  \<^verbatim>\<open>withDefault(content, undefined)\<close> (utils/base); and the controller that
  \<^verbatim>\<open>new AbortController()\<close> makes. A completion is given by the optional \<open>message\<close> of
  each of its choices; \<open>create\<close> gets the request and the controller whose signal is
  passed, if any.
\<close>

record ('h, 'x, 't, 'm) sdk =
  create :: "'t chat_request \<Rightarrow> 'h option
               \<Rightarrow> ('h, 'x) client_world \<Rightarrow> (js_error + 'm option list) \<times> ('h, 'x) client_world"
  create_stream :: "'t chat_request
               \<Rightarrow> ('h, 'x) client_world \<Rightarrow> (js_error + ('h, 'x) chat_stream) \<times> ('h, 'x) client_world"
  isNotEmpty :: "jsstring option \<Rightarrow> bool"
  withDefault :: "jsstring \<Rightarrow> jsstring option"
  new_AbortController :: 'h

text \<open>\<^verbatim>\<open>if (requestId) { ... }\<close>: the body runs with a non-empty request id.\<close>

fun if_requestId :: "jsstring option \<Rightarrow> (jsstring \<Rightarrow> 'c \<Rightarrow> 'c) \<Rightarrow> 'c \<Rightarrow> 'c" where
  "if_requestId None body c = c"
| "if_requestId (Some requestId) body c = (if requestId \<noteq> [] then body requestId c else c)"

text \<open>
  The request both methods build: the model defaults to
  \<^verbatim>\<open>this.deployment ?? kEnvs.OPENAI_MODEL ?? "gpt-4o"\<close>, the system message is there when
  \<open>isNotEmpty(system)\<close>.
\<close>

definition build_request ::
  "('h, 'x, 't, 'm) sdk \<Rightarrow> kEnvs \<Rightarrow> 't ChatOptions \<Rightarrow> ('h, 'x) client_world \<Rightarrow> bool \<Rightarrow> bool
     \<Rightarrow> 't chat_request" where
  "build_request sdk env options c streaming search =
     \<lparr>req_model = or_default (chat_model options)
                    (or_default (deployment c) (or_default (OPENAI_MODEL env) (ascii ''gpt-4o''))),
      req_tools = chat_tools options,
      req_stream = streaming,
      req_messages =
        (if isNotEmpty sdk (chat_system options) then [(''system'', chat_system options)] else [])
        @ [(''user'', Some (chat_user options))],
      req_json_object = chat_jsonMode options,
      req_enable_search = search\<rparr>"

text \<open>
  \<open>chat\<close> (lines 57-102). A rejection of \<open>create\<close> is caught and becomes \<open>null\<close>, so the
  method itself does not throw.
\<close>

definition chat ::
  "('h, 'x, 't, 'm) sdk \<Rightarrow> kEnvs \<Rightarrow> 't ChatOptions \<Rightarrow> ('m option, ('h, 'x) client_world) io" where
  "chat sdk env options = (\<lambda>c0.
     let c1 = init env c0;
         requestId = chat_requestId options;
         signal = (if truthy requestId then Some (new_AbortController sdk) else None);
         c2 = if_requestId requestId (\<lambda>rid. register rid (new_AbortController sdk)) c1
     in case create sdk (build_request sdk env options c1 False False) signal c2 of
          (r, c3) \<Rightarrow>
            let chatCompletion = (case r of Inl e \<Rightarrow> None | Inr choices \<Rightarrow> Some choices);
                c4 = if_requestId requestId unregister c3;
                message = (case chatCompletion of
                             None \<Rightarrow> None
                           | Some [] \<Rightarrow> None
                           | Some (choice # _) \<Rightarrow> choice)
            in (Inr message, c4))"

text \<open>\<^verbatim>\<open>chunk.choices[0]?.delta?.content || ""\<close>.\<close>

fun chunk_text :: "chunk \<Rightarrow> jsstring" where
  "chunk_text [] = []"
| "chunk_text (None # _) = []"
| "chunk_text (Some content # _) = content"

text \<open>
  How the loop over the stream was left: the iterator ended with \<open>content\<close> collected, or
  the abort was seen (\<^verbatim>\<open>content = ""; break\<close>).
\<close>

datatype stream_end = Exhausted jsstring | AbortSeen

text \<open>
  The loop of \<open>chatStream\<close> (lines 158-172) over the events still to come: when a chunk
  has arrived, the request counts as aborted if it has an id that is no key of
  \<open>abortCallbacks\<close>; otherwise a non-empty text is handed to \<open>onStream\<close>, if there is one,
  and appended to \<open>content\<close>.
\<close>

fun consume ::
  "jsstring option \<Rightarrow> (jsstring \<Rightarrow> (unit, ('h, 'x) client_world) io) option
     \<Rightarrow> (('h, 'x) client_world \<Rightarrow> ('h, 'x) client_world)
     \<Rightarrow> ((('h, 'x) client_world \<Rightarrow> ('h, 'x) client_world) \<times> chunk) list
     \<Rightarrow> (('h, 'x) client_world \<Rightarrow> ('h, 'x) client_world) \<times> js_error option
     \<Rightarrow> jsstring \<Rightarrow> (stream_end, ('h, 'x) client_world) io" where
  "consume requestId onStream close [] end content c =
     (case snd end of
        None \<Rightarrow> (Inr (Exhausted content), fst end c)
      | Some e \<Rightarrow> (Inl e, fst end c))"
| "consume requestId onStream close ((meanwhile, chunk) # rest) end content c =
     (let c1 = meanwhile c;
          text = chunk_text chunk;
          aborted = (case requestId of
                       None \<Rightarrow> False
                     | Some rid \<Rightarrow> rid \<noteq> [] \<and> rid \<notin> dom (abortCallbacks c1))
      in if aborted then (Inr AbortSeen, close c1)
         else if text \<noteq> [] then
           (case onStream of
              None \<Rightarrow> consume requestId onStream close rest end (content @ text) c1
            | Some f \<Rightarrow>
                (case f text c1 of
                   (Inl e, c2) \<Rightarrow> (Inl e, close c2)
                 | (Inr _, c2) \<Rightarrow> consume requestId onStream close rest end (content @ text) c2))
         else consume requestId onStream close rest end content c1)"

text \<open>
  \<open>chatStream\<close> (lines 104-183). A rejection of \<open>create\<close> is caught and the method
  returns \<open>undefined\<close>; the callback is registered once the stream is there; an
  exception of the loop is not caught, so the lines after the loop are not reached.
\<close>

definition chatStream ::
  "('h, 'x, 't, 'm) sdk \<Rightarrow> kEnvs \<Rightarrow> 't ChatOptions
     \<Rightarrow> (jsstring \<Rightarrow> (unit, ('h, 'x) client_world) io) option
     \<Rightarrow> (jsstring option, ('h, 'x) client_world) io" where
  "chatStream sdk env options onStream = (\<lambda>c0.
     let c1 = init env c0;
         requestId = chat_requestId options;
         enableSearch = or_default (chat_enableSearch options) (QWEN_ENABLE_SEARCH env)
     in case create_stream sdk (build_request sdk env options c1 True enableSearch) c1 of
          (Inl e, c2) \<Rightarrow> (Inr None, c2)
        | (Inr stream, c2) \<Rightarrow>
            (let c3 = if_requestId requestId (\<lambda>rid. register rid (controller stream)) c2
             in case consume requestId onStream (closing stream) (events stream)
                       (ending stream) [] c3 of
                  (Inl e, c4) \<Rightarrow> (Inl e, c4)
                | (Inr left, c4) \<Rightarrow>
                    (let content = (case left of Exhausted content \<Rightarrow> content | AbortSeen \<Rightarrow> []);
                         c5 = if_requestId requestId unregister c4
                     in (Inr (withDefault sdk content), c5))))"

section \<open>\<open>MyBot.chatWithStreamResponse\<close> (ai.ts, lines 547-580)\<close>

text \<open>
  Modelled from the spec: the type of the field \<open>status\<close> of \<open>StreamResponse\<close>
  (speaker/stream.ts is not among the sources), with the states of section 4.2 of the
  spec; the code only asks whether it is \<^verbatim>\<open>"canceled"\<close>.
\<close>

datatype stream_status = Pending | Streaming | Finished | Canceled | TimedOut

text \<open>
  The stream object that the method creates is part of the world outside the client, and
  the methods of \<open>StreamResponse\<close> are parameters: \<open>stream_status\<close> reads its status, the
  others change it.
\<close>

record 'x StreamResponse =
  stream_status :: "'x \<Rightarrow> stream_status"
  addResponse :: "jsstring \<Rightarrow> 'x \<Rightarrow> 'x"
  finish :: "jsstring option \<Rightarrow> 'x \<Rightarrow> 'x"
  cancel_stream :: "'x \<Rightarrow> 'x"

text \<open>The \<open>onStream\<close> callback the method hands to \<open>chatStream\<close> (lines 561-567).\<close>

definition onStream_callback ::
  "'x StreamResponse \<Rightarrow> kEnvs \<Rightarrow> jsstring \<Rightarrow> jsstring \<Rightarrow> (unit, ('h, 'x) client_world) io" where
  "onStream_callback stream env requestId text = (\<lambda>c.
     if stream_status stream (outside c) = Canceled
     then cancel env requestId c
     else (Inr (), c\<lparr>outside := addResponse stream text (outside c)\<rparr>))"

text \<open>The handler of \<^verbatim>\<open>.then(...)\<close> (lines 569-578); \<open>onFinished\<close> is the caller's.\<close>

definition on_answer ::
  "'x StreamResponse \<Rightarrow> (jsstring \<Rightarrow> 'x \<Rightarrow> 'x) option \<Rightarrow> jsstring option
     \<Rightarrow> ('h, 'x) client_world \<Rightarrow> ('h, 'x) client_world" where
  "on_answer stream onFinished answer c =
     (if truthy answer
      then c\<lparr>outside := (case (onFinished, answer) of
                            (Some f, Some text) \<Rightarrow> f text
                          | _ \<Rightarrow> (\<lambda>x. x))
                          (finish stream answer (outside c))\<rparr>
      else c\<lparr>outside := cancel_stream stream (finish stream answer (outside c))\<rparr>)"

text \<open>
  The promise chain \<^verbatim>\<open>openai.chatStream({...}).then(...)\<close> that the method starts for the
  request id \<open>randomUUID()\<close> gave it. The method itself returns the stream object at
  once; the chain has no \<^verbatim>\<open>catch\<close>.
\<close>

definition chatWithStreamResponse ::
  "('h, 'x, 't, 'm) sdk \<Rightarrow> kEnvs \<Rightarrow> 'x StreamResponse \<Rightarrow> 't ChatOptions
     \<Rightarrow> (jsstring \<Rightarrow> 'x \<Rightarrow> 'x) option \<Rightarrow> jsstring \<Rightarrow> (unit, ('h, 'x) client_world) io" where
  "chatWithStreamResponse sdk env stream options onFinished requestId =
     io_bind (chatStream sdk env (options\<lparr>chat_requestId := Some requestId\<rparr>)
                (Some (onStream_callback stream env requestId)))
       (\<lambda>answer c. (Inr (), on_answer stream onFinished answer c))"

section \<open>A stand-in environment for running the model on examples\<close>

text \<open>
  The theorems below hold for every base class and every SDK. To run the model on concrete
  inputs, this section fixes simple ones. The stand-in base class keeps a trace of the
  calls made on it: \<open>response\<close> records its argument and resolves to \<open>undefined\<close>,
  \<open>super_enterKeepAlive\<close> and \<open>super_exitKeepAlive\<close> set and clear \<open>keepAlive\<close>, \<open>pickOne\<close>
  takes the first element, and a new message has arrived when the count of messages has
  grown. Answers are plain texts.
\<close>

datatype demo_call =
    Response "jsstring response_arg"
  | AskAI jsstring
  | WakeUp
  | UnWakeUp
  | SwitchSpeaker jsstring
  | SuperEnterKeepAlive
  | SuperExitKeepAlive

record demo_world =
  demo_trace :: "demo_call list"
  demo_keepAlive :: bool
  demo_streamResponse :: bool
  demo_audioBeep :: bool
  demo_status :: speaker_status
  demo_messages :: nat

definition demo_did :: "demo_call \<Rightarrow> demo_world \<Rightarrow> demo_world" where
  "demo_did c w = w\<lparr>demo_trace := demo_trace w @ [c]\<rparr>"

definition demo_ops :: "(demo_world, jsstring) Speaker" where
  "demo_ops =
     \<lparr>response = (\<lambda>arg w. (Inr None, demo_did (Response arg) w)),
      wakeUp = (\<lambda>w. (Inr (), demo_did WakeUp w)),
      unWakeUp = (\<lambda>w. (Inr (), demo_did UnWakeUp w)),
      switchSpeaker = (\<lambda>speaker w. (Inr True, demo_did (SwitchSpeaker speaker) w)),
      super_enterKeepAlive =
        (\<lambda>w. (Inr (), demo_did SuperEnterKeepAlive (w\<lparr>demo_keepAlive := True\<rparr>))),
      super_exitKeepAlive =
        (\<lambda>w. (Inr (), demo_did SuperExitKeepAlive (w\<lparr>demo_keepAlive := False\<rparr>))),
      checkIfHasNewMsg = (\<lambda>msg w w'. demo_messages w < demo_messages w'),
      keepAlive = demo_keepAlive,
      streamResponse = demo_streamResponse,
      audioBeep = demo_audioBeep,
      status = demo_status,
      custom_commands = (\<lambda>w. []),
      pickOne = (\<lambda>xs w. (case xs of [] \<Rightarrow> None | x # _ \<Rightarrow> Some x, w)),
      resume = (\<lambda>w. w)\<rparr>"

text \<open>The device at rest: running, streaming on, not in keep-alive mode, nothing said.\<close>

definition demo_idle :: demo_world where
  "demo_idle =
     \<lparr>demo_trace = [], demo_keepAlive = False, demo_streamResponse = True,
      demo_audioBeep = False, demo_status = Running, demo_messages = 0\<rparr>"

text \<open>
  A speaker built by the constructor (which succeeds, as is shown below) from a
  configuration that only sets \<open>askAI\<close>.
\<close>

definition demo_config ::
  "(QueryMessage \<Rightarrow> (jsstring option, demo_world) io) option
     \<Rightarrow> (demo_world, jsstring) AISpeakerConfig" where
  "demo_config f =
     \<lparr>cfg_askAI = f, cfg_name = None, cfg_switchSpeakerKeywords = None,
      cfg_callAIKeywords = None, cfg_wakeUpKeywords = None, cfg_exitKeywords = None,
      cfg_onEnterAI = None, cfg_onExitAI = None, cfg_onAIAsking = None,
      cfg_onAIReplied = None, cfg_onAIError = None, cfg_audioActive = None,
      cfg_audioError = None\<rparr>"

definition demo_speaker ::
  "(QueryMessage \<Rightarrow> (jsstring option, demo_world) io) option
     \<Rightarrow> (demo_world, jsstring) AISpeaker" where
  "demo_speaker f =
     projr (AISpeaker_constructor \<lparr>AUDIO_ACTIVE = None, AUDIO_ERROR = None\<rparr> (demo_config f))"

text \<open>Three models: one answers, one answers while a new message comes in, one fails.\<close>

definition demo_answers :: "QueryMessage \<Rightarrow> (jsstring option, demo_world) io" where
  "demo_answers msg w = (Inr (Some (ascii ''fine'')), demo_did (AskAI (msg_text msg)) w)"

definition demo_superseded :: "QueryMessage \<Rightarrow> (jsstring option, demo_world) io" where
  "demo_superseded msg w =
     (Inr (Some (ascii ''fine'')),
      demo_did (AskAI (msg_text msg)) (w\<lparr>demo_messages := Suc (demo_messages w)\<rparr>))"

definition demo_rejects :: "QueryMessage \<Rightarrow> (jsstring option, demo_world) io" where
  "demo_rejects msg w = (Inl (Error (ascii ''offline'')), demo_did (AskAI (msg_text msg)) w)"

definition demo_msg :: QueryMessage where
  "demo_msg = \<lparr>msg_text = 0x8BF7 # ascii ''hello'', msg_timestamp = 0\<rparr>"

text \<open>
  The stand-in SDK: \<open>create\<close> resolves to a completion with one message;
  \<open>create_stream\<close> settles as given, while nothing else happens; \<open>isNotEmpty\<close> and
  \<open>withDefault\<close> treat the empty string as empty. Controllers are numbers, and the world
  outside the client is the stream object of \<open>chatWithStreamResponse\<close>: its status and
  the texts added to it.
\<close>

definition demo_sdk ::
  "(js_error + (nat, 'x) chat_stream) \<Rightarrow> (nat, 'x, unit, jsstring) sdk" where
  "demo_sdk settled =
     \<lparr>create = (\<lambda>req signal c. (Inr [Some (ascii ''hi'')], c)),
      create_stream = (\<lambda>req c. (settled, c)),
      isNotEmpty = truthy,
      withDefault = (\<lambda>s. if s = [] then None else Some s),
      new_AbortController = 7\<rparr>"

definition demo_env :: kEnvs where
  "demo_env =
     \<lparr>AZURE_OPENAI_DEPLOYMENT = None, AZURE_OPENAI_API_KEY = None, OPENAI_MODEL = None,
      QWEN_ENABLE_SEARCH = False\<rparr>"

definition demo_options :: "jsstring option \<Rightarrow> unit ChatOptions" where
  "demo_options requestId =
     \<lparr>chat_user = ascii ''hello'', chat_system = None, chat_model = None, chat_tools = None,
      chat_jsonMode = False, chat_requestId = requestId, chat_enableSearch = None\<rparr>"

definition demo_client :: "'x \<Rightarrow> (nat, 'x) client_world" where
  "demo_client x =
     \<lparr>deployment = None, client = None, abortCallbacks = Map.empty, aborted = [],
      outside = x\<rparr>"

text \<open>A stream with controller 1 that is closed without further ado, and a request id.\<close>

definition demo_stream ::
  "(((nat, 'x) client_world \<Rightarrow> (nat, 'x) client_world) \<times> chunk) list
     \<Rightarrow> ((nat, 'x) client_world \<Rightarrow> (nat, 'x) client_world) \<times> js_error option
     \<Rightarrow> (nat, 'x) chat_stream" where
  "demo_stream evs end = \<lparr>controller = 1, events = evs, ending = end, closing = (\<lambda>c. c)\<rparr>"

definition demo_id :: jsstring where
  "demo_id = ascii ''r1''"

definition demo_stream_object :: "(stream_status \<times> jsstring list) StreamResponse" where
  "demo_stream_object =
     \<lparr>stream_status = fst,
      addResponse = (\<lambda>text (st, texts). (if st = Pending then Streaming else st, texts @ [text])),
      finish = (\<lambda>answer (st, texts). (if st = Canceled \<or> st = TimedOut then st else Finished, texts)),
      cancel_stream = (\<lambda>(st, texts). (if st = Finished then st else Canceled, texts))\<rparr>"

section \<open>Strings\<close>

lemma startsWith_prefix: "startsWith s e \<longleftrightarrow> prefix e s"
  by (induction s e rule: startsWith.induct) auto

lemma list_ex_startsWith:
  "list_ex (\<lambda>e. startsWith s e) ks \<longleftrightarrow> (\<exists>e \<in> set ks. prefix e s)"
  by (simp add: list_ex_iff startsWith_prefix)

section \<open>The default speaker-switch keywords\<close>

text \<open>
  \<open>generate\<close> appends to \<open>results\<close> the sentences that extend \<open>currentSentence\<close> by one
  word of each remaining group, in the order of \<open>product_lists\<close>: the first group varies
  slowest.
\<close>

lemma generate_product:
  "index \<le> length words \<Longrightarrow>
     generate words cur index results =
       Inr (results @ map (\<lambda>s. concat (cur @ s)) (product_lists (drop index words)))"
  "index < length words \<Longrightarrow>
     generate_loop words cur index todo results =
       Inr (results @ concat (map (\<lambda>w. map (\<lambda>s. concat (cur @ w # s))
                                   (product_lists (drop (Suc index) words))) todo))"
proof (induction words cur index results and words cur index todo results
       rule: generate_generate_loop.induct)
  case (1 words currentSentence index results)
  show ?case
  proof (cases "index = length words")
    case True
    then show ?thesis by simp
  next
    case False
    with 1 have lt: "index < length words" by simp
    have "drop index words = (words ! index) # drop (Suc index) words"
      using lt by (simp add: Cons_nth_drop_Suc)
    then show ?thesis using 1 lt False
      by (simp add: map_concat comp_def)
  qed
next
  case (2 words currentSentence index results)
  then show ?case by simp
next
  case (3 words currentSentence index word rest results)
  then show ?case by simp
qed

lemma generateSentences_product:
  "generateSentences words = Inr (map concat (product_lists words))"
  using generate_product(1) [of 0 words "[]" "[]"]
  by (simp add: generateSentences_def del: generate.simps)

lemma default_prefixes:
  "getDefaultSwitchSpeakerPrefix =
     Inr [a @ b @ c @ d.
            a \<leftarrow> [[0x628A], []],
            b \<leftarrow> [[0x97F3, 0x8272], [0x58F0, 0x97F3]],
            c \<leftarrow> [[0x5207, 0x6362], [0x6362], [0x8C03]],
            d \<leftarrow> [[0x5230], [0x4E3A], [0x6210]]]"
  by (simp add: getDefaultSwitchSpeakerPrefix_def generateSentences_product switch_words_def)

text \<open>
  Claim C10. When the configuration leaves \<open>switchSpeakerKeywords\<close> undefined, the
  constructor succeeds and the speaker's \<open>switchSpeakerKeywords\<close> are the concatenations
  of one word from each of the four groups, in the order of the groups, the first group
  varying slowest and the last fastest: 36 strings, all different.
\<close>

theorem switchSpeakerKeywords_default:
  "\<exists>this. AISpeaker_constructor env (config\<lparr>cfg_switchSpeakerKeywords := None\<rparr>) = Inr this
     \<and> switchSpeakerKeywords this =
         [a @ b @ c @ d.
            a \<leftarrow> [[0x628A], []],
            b \<leftarrow> [[0x97F3, 0x8272], [0x58F0, 0x97F3]],
            c \<leftarrow> [[0x5207, 0x6362], [0x6362], [0x8C03]],
            d \<leftarrow> [[0x5230], [0x4E3A], [0x6210]]]
     \<and> length (switchSpeakerKeywords this) = 36
     \<and> distinct (switchSpeakerKeywords this)"
  by (simp add: AISpeaker_constructor_def default_prefixes)

text \<open>
  On the stand-in speaker: the first keyword is all four first words, the last keyword is
  the last word of each group (the first group's is the empty string).
\<close>

theorem switchSpeakerKeywords_default_witness:
  "hd (switchSpeakerKeywords (demo_speaker None))
      = [0x628A, 0x97F3, 0x8272, 0x5207, 0x6362, 0x5230]
   \<and> last (switchSpeakerKeywords (demo_speaker None)) = [0x58F0, 0x97F3, 0x8C03, 0x6210]
   \<and> length (switchSpeakerKeywords (demo_speaker None)) = 36"
proof -
  from switchSpeakerKeywords_default
    [of "\<lparr>AUDIO_ACTIVE = None, AUDIO_ERROR = None\<rparr>" "demo_config None"]
  obtain this :: "(demo_world, jsstring) AISpeaker" where
    made: "AISpeaker_constructor \<lparr>AUDIO_ACTIVE = None, AUDIO_ERROR = None\<rparr>
             ((demo_config None)\<lparr>cfg_switchSpeakerKeywords := None\<rparr>) = Inr this"
    and ks: "switchSpeakerKeywords this =
         [a @ b @ c @ d.
            a \<leftarrow> [[0x628A], []],
            b \<leftarrow> [[0x97F3, 0x8272], [0x58F0, 0x97F3]],
            c \<leftarrow> [[0x5207, 0x6362], [0x6362], [0x8C03]],
            d \<leftarrow> [[0x5230], [0x4E3A], [0x6210]]]"
    by blast
  have "(demo_config None :: (demo_world, jsstring) AISpeakerConfig)
          \<lparr>cfg_switchSpeakerKeywords := None\<rparr> = demo_config None"
    by (simp add: demo_config_def)
  with made have "demo_speaker None = this"
    by (simp add: demo_speaker_def)
  then show ?thesis
    by (simp add: ks)
qed

section \<open>The effect combinators and the phrases\<close>

lemmas io_defs = io_bind_def io_return_def io_lift_def io_ignore_def await_def

lemma speak_eq:
  "io_bind (io_lift (pickOne ops phrases))
     (\<lambda>text. if_text text (\<lambda>t. io_ignore (await ops (response ops (Options (options t))))))
   = speak ops phrases options"
  by (rule ext)
     (auto simp: io_defs speak_def split: prod.splits option.splits sum.splits)

lemma io_bind_assoc: "io_bind (io_bind m f) g = io_bind m (\<lambda>x. io_bind (f x) g)"
  by (rule ext) (auto simp: io_bind_def split: prod.splits sum.splits)

section \<open>The loop of \<open>askAIForAnswer\<close>\<close>

text \<open>
  The steps that returned are an initial segment of the array, in order; all of it when
  the loop ran out of steps.
\<close>

lemma run_steps_completed_length:
  "length (completed (run_steps ops msg hn i steps data w)) \<le> length steps"
  by (induction steps arbitrary: i data w)
     (auto simp: Let_def split: prod.splits sum.splits)

lemma run_steps_completed_indices:
  "map fst (completed (run_steps ops msg hn i steps data w))
     = [i ..< i + length (completed (run_steps ops msg hn i steps data w))]"
proof (induction steps arbitrary: i data w)
  case Nil
  then show ?case by simp
next
  case (Cons action rest)
  show ?case
    using Cons.IH [of "Suc i"]
    by (auto simp: Let_def upt_rec [of i] split: prod.splits sum.splits)
qed

lemma run_steps_all_completed:
  "outcome (run_steps ops msg hn i steps data w) = Inr Completed
     \<Longrightarrow> length (completed (run_steps ops msg hn i steps data w)) = length steps"
  by (induction steps arbitrary: i data w)
     (auto simp: Let_def split: prod.splits sum.splits if_splits)

text \<open>
  If the check made after a step finds a new message or a speaker that is not running,
  that step is the last one recorded, the loop was left by the check, and the world is
  the one of the check.
\<close>

lemma run_steps_interrupted:
  assumes "k < length (completed (run_steps ops msg hn i steps data w))"
    and "completed (run_steps ops msg hn i steps data w) ! k = (j, wk)"
    and "hn wk \<or> status ops wk \<noteq> Running"
  shows "j = i + k
    \<and> length (completed (run_steps ops msg hn i steps data w)) = Suc k
    \<and> outcome (run_steps ops msg hn i steps data w) = Inr Interrupted
    \<and> world (run_steps ops msg hn i steps data w) = wk"
  using assms
proof (induction steps arbitrary: i data w k)
  case Nil
  then show ?case by simp
next
  case (Cons action rest)
  obtain r w' where step: "await ops (action msg data) w = (r, w')"
    by (cases "await ops (action msg data) w")
  show ?case
  proof (cases r)
    case (Inl e)
    with step Cons.prems show ?thesis by simp
  next
    case (Inr res)
    show ?thesis
    proof (cases "hn w' \<or> status ops w' \<noteq> Running")
      case True
      with step Inr Cons.prems show ?thesis by auto
    next
      case False
      show ?thesis
      proof (cases "case res of Some r \<Rightarrow> res_stop r | None \<Rightarrow> False")
        case True
        with step Inr False Cons.prems show ?thesis by (auto simp: Let_def)
      next
        case nostop: False
        define data' where "data' = (case res of
                           Some r \<Rightarrow> (case res_data r of Some d \<Rightarrow> data ++ d | None \<Rightarrow> data)
                         | None \<Rightarrow> data)"
        have eq: "run_steps ops msg hn i (action # rest) data w
                = (run_steps ops msg hn (Suc i) rest data' w')
                    \<lparr>completed := (i, w') # completed (run_steps ops msg hn (Suc i) rest data' w')\<rparr>"
          using step Inr False nostop by (simp add: Let_def data'_def)
        show ?thesis
        proof (cases k)
          case 0
          with Cons.prems eq False show ?thesis by auto
        next
          case (Suc k')
          with Cons.prems eq
          have "k' < length (completed (run_steps ops msg hn (Suc i) rest data' w'))"
            and "completed (run_steps ops msg hn (Suc i) rest data' w') ! k' = (j, wk)"
            by auto
          from Cons.IH [OF this Cons.prems(3)] Suc eq show ?thesis by simp
        qed
      qed
    qed
  qed
qed

text \<open>Running a list of steps is running a first part and then, if it ran out, the rest.\<close>

lemma run_steps_append:
  "run_steps ops msg hn i (pre @ post) data w =
     (let r = run_steps ops msg hn i pre data w
      in if outcome r = Inr Completed
         then (let r' = run_steps ops msg hn (i + length pre) post (bag r) (world r)
               in r'\<lparr>completed := completed r @ completed r'\<rparr>)
         else r)"
proof (induction pre arbitrary: i data w)
  case Nil
  then show ?case by simp
next
  case (Cons action pre)
  show ?case
    by (auto simp: Let_def Cons.IH split: prod.splits sum.splits)
qed

section \<open>The six steps\<close>

lemma steps_length: "length (askAIForAnswerSteps ops this) = 6"
  by (simp add: askAIForAnswerSteps_def)

lemma step1:
  "(askAIForAnswerSteps ops this ! 0) msg data
     = io_bind (speak ops (onAIAsking this) (\<lambda>t. (say t)\<lparr>opt_audio := audioActive this\<rparr>))
         (\<lambda>_. io_return None)"
  by (simp add: askAIForAnswerSteps_def io_bind_assoc [symmetric] speak_eq)

lemma step2:
  "(askAIForAnswerSteps ops this ! 1) msg data
     = io_bind (await ops (case askAI this of None \<Rightarrow> io_return None | Some f \<Rightarrow> f msg))
         (\<lambda>answer. io_return
            (Some \<lparr>res_stop = False, res_data = Some [Key_answer \<mapsto> Answer answer]\<rparr>))"
  by (simp add: askAIForAnswerSteps_def)

lemma step3:
  "(askAIForAnswerSteps ops this ! 2) msg data
     = (case data_answer data of
          Some a \<Rightarrow> io_bind (await ops (response ops (Spread a)))
            (\<lambda>res. io_return (Some \<lparr>res_stop = False,
                                    res_data = Some (data(Key_res \<mapsto> Res res))\<rparr>))
        | None \<Rightarrow> io_return None)"
  by (simp add: askAIForAnswerSteps_def)

lemma step4:
  "(askAIForAnswerSteps ops this ! 3) msg data w
     = (if data_answer data \<noteq> None \<and> data_res data = None
            \<and> \<not> audioBeep ops w \<and> streamResponse ops w
        then io_bind (speak ops (onAIReplied this) say) (\<lambda>_. io_return None) w
        else (Inr None, w))"
  by (simp add: askAIForAnswerSteps_def io_bind_assoc [symmetric] speak_eq io_return_def)

lemma step5:
  "(askAIForAnswerSteps ops this ! 4) msg data
     = (if data_res data = Some (ascii ''error'')
        then io_bind (speak ops (onAIError this) (\<lambda>t. (say t)\<lparr>opt_audio := audioError this\<rparr>))
               (\<lambda>_. io_return None)
        else io_return None)"
  by (simp add: askAIForAnswerSteps_def io_bind_assoc [symmetric] speak_eq)

lemma step6:
  "(askAIForAnswerSteps ops this ! 5) msg data w
     = (if keepAlive ops w
        then io_bind (await ops (wakeUp ops)) (\<lambda>_. io_return None) w
        else (Inr None, w))"
  by (simp add: askAIForAnswerSteps_def io_return_def)

lemma steps_never_stop:
  assumes "i < 6" and "(askAIForAnswerSteps ops this ! i) msg data w = (Inr (Some r), w')"
  shows "\<not> res_stop r"
proof -
  from assms(1) consider "i = 0" | "i = 1" | "i = 2" | "i = 3" | "i = 4" | "i = 5"
    by linarith
  then show ?thesis
  proof cases
    case 1
    with assms(2) have "(askAIForAnswerSteps ops this ! 0) msg data w = (Inr (Some r), w')"
      by simp
    then show ?thesis unfolding step1
      by (auto simp: io_defs split: prod.splits sum.splits)
  next
    case 2
    with assms(2) have "(askAIForAnswerSteps ops this ! 1) msg data w = (Inr (Some r), w')"
      by simp
    then show ?thesis unfolding step2
      by (auto simp: io_defs split: prod.splits sum.splits option.splits)
  next
    case 3
    with assms(2) have "(askAIForAnswerSteps ops this ! 2) msg data w = (Inr (Some r), w')"
      by simp
    then show ?thesis unfolding step3
      by (auto simp: io_defs split: prod.splits sum.splits option.splits)
  next
    case 4
    with assms(2) have "(askAIForAnswerSteps ops this ! 3) msg data w = (Inr (Some r), w')"
      by simp
    then show ?thesis unfolding step4
      by (auto simp: io_defs split: prod.splits sum.splits if_splits)
  next
    case 5
    with assms(2) have "(askAIForAnswerSteps ops this ! 4) msg data w = (Inr (Some r), w')"
      by simp
    then show ?thesis unfolding step5
      by (auto simp: io_defs split: prod.splits sum.splits if_splits)
  next
    case 6
    with assms(2) have "(askAIForAnswerSteps ops this ! 5) msg data w = (Inr (Some r), w')"
      by simp
    then show ?thesis unfolding step6
      by (auto simp: io_defs split: prod.splits sum.splits if_splits)
  qed
qed

lemma completed_run_all_steps:
  assumes "outcome (askAIForAnswer_run ops this msg w) = Inr Completed"
  shows "map fst (completed (askAIForAnswer_run ops this msg w)) = [0, 1, 2, 3, 4, 5]"
proof -
  let ?r = "run_steps ops msg (checkIfHasNewMsg ops msg w) 0 (askAIForAnswerSteps ops this)
              Map.empty w"
  have r: "askAIForAnswer_run ops this msg w = ?r"
    by (simp add: askAIForAnswer_run_def)
  from assms r have "length (completed ?r) = 6"
    using run_steps_all_completed [of ops msg _ 0 "askAIForAnswerSteps ops this" Map.empty w]
    by (simp add: steps_length)
  moreover have "map fst (completed ?r) = [0 ..< 0 + length (completed ?r)]"
    by (rule run_steps_completed_indices)
  ultimately have "map fst (completed ?r) = [0 ..< 6]" by simp
  also have "[0 ..< 6] = [0, 1, 2, 3, 4, 5 :: nat]" by (simp add: upt_rec)
  finally show ?thesis using r by simp
qed

section \<open>The stand-in speaker\<close>

lemmas demo_defs =
  demo_ops_def demo_did_def demo_idle_def demo_msg_def demo_answers_def demo_superseded_def
  demo_rejects_def say_def ascii_def

lemma demo_speaker_fields:
  "askAI (demo_speaker f) = f"
  "onAIAsking (demo_speaker f)
     = [[0x8BA9, 0x6211, 0x5148, 0x60F3, 0x60F3], [0x8BF7, 0x7A0D, 0x7B49]]"
  "onAIReplied (demo_speaker f)
     = [[0x6211, 0x8BF4, 0x5B8C, 0x4E86], [0x8FD8, 0x6709, 0x5176, 0x4ED6, 0x95EE, 0x9898, 0x5417]]"
  "onEnterAI (demo_speaker f)
     = [[0x4F60, 0x597D, 0xFF0C, 0x6211, 0x662F, 0x50BB, 0x599E, 0xFF0C, 0x5F88, 0x9AD8,
              0x5174, 0x8BA4, 0x8BC6, 0x4F60]]"
  "wakeUpKeywords (demo_speaker f) = [[0x6253, 0x5F00], [0x8FDB, 0x5165], [0x53EC, 0x5524]]"
  "exitKeywords (demo_speaker f) = [[0x5173, 0x95ED], [0x9000, 0x51FA], [0x518D, 0x89C1]]"
  "callAIKeywords (demo_speaker f) = [[0x8BF7], [0x4F60], [0x50BB, 0x599E]]"
  "audioActive (demo_speaker f) = None"
  "audioError (demo_speaker f) = None"
  by (simp_all add: demo_speaker_def AISpeaker_constructor_def default_prefixes demo_config_def)

section \<open>Supersession\<close>

text \<open>
  Claim C1. Take any run of \<open>askAIForAnswer\<close> and any step that returned in it, the
  \<open>k\<close>-th in the record of the run (counting from 0, so step \<open>k + 1\<close> of the claim), with
  \<open>wk\<close> the world in which the check after it was made. If in \<open>wk\<close> a new message has
  arrived since the snapshot taken before the first step, or the status is not running,
  then the steps that ran are exactly those with indices \<open>0 .. k\<close>, the loop was left by
  the check, and the method resolves in the world \<open>wk\<close> itself: no later step has run and
  nothing done up to the check is undone.
\<close>

theorem askAIForAnswer_supersession:
  assumes "k < length (completed (askAIForAnswer_run ops this msg w))"
    and "completed (askAIForAnswer_run ops this msg w) ! k = (j, wk)"
    and "checkIfHasNewMsg ops msg w wk \<or> status ops wk \<noteq> Running"
  shows "j = k
    \<and> map fst (completed (askAIForAnswer_run ops this msg w)) = [0 ..< Suc k]
    \<and> outcome (askAIForAnswer_run ops this msg w) = Inr Interrupted
    \<and> world (askAIForAnswer_run ops this msg w) = wk
    \<and> askAIForAnswer ops this msg w = (Inr (), wk)"
proof -
  let ?r = "run_steps ops msg (checkIfHasNewMsg ops msg w) 0 (askAIForAnswerSteps ops this)
              Map.empty w"
  have r: "askAIForAnswer_run ops this msg w = ?r"
    by (simp add: askAIForAnswer_run_def)
  from assms have "j = 0 + k \<and> length (completed ?r) = Suc k
      \<and> outcome ?r = Inr Interrupted \<and> world ?r = wk"
    unfolding r by (rule run_steps_interrupted)
  moreover have "map fst (completed ?r) = [0 ..< 0 + length (completed ?r)]"
    by (rule run_steps_completed_indices)
  ultimately show ?thesis
    by (simp add: r [symmetric] askAIForAnswer_def)
qed

text \<open>
  On the stand-in speaker with a model during whose answer a new message comes in: the
  thinking phrase is spoken, the model is asked, and nothing else happens.
\<close>

lemma demo_superseded_completed:
  "completed (askAIForAnswer_run demo_ops (demo_speaker (Some demo_superseded)) demo_msg demo_idle)
     = [(0, demo_did (Response (Options (say [0x8BA9, 0x6211, 0x5148, 0x60F3, 0x60F3]))) demo_idle),
        (1, demo_did (AskAI (msg_text demo_msg))
              ((demo_did (Response (Options (say [0x8BA9, 0x6211, 0x5148, 0x60F3, 0x60F3])))
                  demo_idle)\<lparr>demo_messages := 1\<rparr>))]"
  by (simp add: askAIForAnswer_run_def askAIForAnswerSteps_def demo_speaker_fields io_defs
        demo_defs)

theorem askAIForAnswer_supersession_witness:
  "map fst (completed (askAIForAnswer_run demo_ops (demo_speaker (Some demo_superseded))
                         demo_msg demo_idle)) = [0, 1]
   \<and> fst (askAIForAnswer demo_ops (demo_speaker (Some demo_superseded)) demo_msg demo_idle)
       = Inr ()
   \<and> demo_trace (snd (askAIForAnswer demo_ops (demo_speaker (Some demo_superseded))
                         demo_msg demo_idle))
       = [Response (Options (say [0x8BA9, 0x6211, 0x5148, 0x60F3, 0x60F3])),
          AskAI (msg_text demo_msg)]"
proof -
  let ?w2 = "demo_did (AskAI (msg_text demo_msg))
              ((demo_did (Response (Options (say [0x8BA9, 0x6211, 0x5148, 0x60F3, 0x60F3])))
                  demo_idle)\<lparr>demo_messages := 1\<rparr>)"
  let ?run = "askAIForAnswer_run demo_ops (demo_speaker (Some demo_superseded)) demo_msg demo_idle"
  have 1: "1 < length (completed ?run)"
    by (simp add: demo_superseded_completed)
  have 2: "completed ?run ! 1 = (1, ?w2)"
    by (simp add: demo_superseded_completed)
  have 3: "checkIfHasNewMsg demo_ops demo_msg demo_idle ?w2 \<or> status demo_ops ?w2 \<noteq> Running"
    by (simp add: demo_defs)
  from askAIForAnswer_supersession [OF 1 2 3] show ?thesis
    by (simp add: demo_defs upt_rec)
qed

section \<open>The list of steps\<close>

text \<open>
  Claim C3. \<open>_askAIForAnswerSteps\<close> has six steps.
  (1) speaks a phrase of \<open>onAIAsking\<close> with the cue \<open>audioActive\<close> and returns no data;
  (2) awaits \<open>askAI\<close> (nothing, if there is none) and returns the answer as the bag's
      \<open>answer\<close>;
  (3) with an answer in the bag, awaits its playback and returns the bag with the result
      as \<open>res\<close>; without one it does nothing;
  (4) speaks a phrase of \<open>onAIReplied\<close> exactly when the bag has an answer, \<open>res\<close> is
      \<open>null\<close> or \<open>undefined\<close>, \<open>audioBeep\<close> is off and \<open>streamResponse\<close> is on;
  (5) speaks a phrase of \<open>onAIError\<close> with the cue \<open>audioError\<close> exactly when \<open>res\<close> is
      \<^verbatim>\<open>"error"\<close>;
  (6) awaits \<open>wakeUp\<close> exactly when \<open>keepAlive\<close> is set.
  No step asks the loop to stop, and a run that is not cut short by the supersession
  check or an exception runs the steps 0, 1, 2, 3, 4, 5 in this order. (To speak a phrase
  is to pick one and say it if there is one, see \<open>speak\<close>.)
\<close>

theorem askAIForAnswerSteps_fixed:
  "length (askAIForAnswerSteps ops this) = 6
   \<and> (askAIForAnswerSteps ops this ! 0) msg data
       = io_bind (speak ops (onAIAsking this) (\<lambda>t. (say t)\<lparr>opt_audio := audioActive this\<rparr>))
           (\<lambda>_. io_return None)
   \<and> (askAIForAnswerSteps ops this ! 1) msg data
       = io_bind (await ops (case askAI this of None \<Rightarrow> io_return None | Some f \<Rightarrow> f msg))
           (\<lambda>answer. io_return
              (Some \<lparr>res_stop = False, res_data = Some [Key_answer \<mapsto> Answer answer]\<rparr>))
   \<and> (\<forall>a. data_answer data = Some a \<longrightarrow>
         (askAIForAnswerSteps ops this ! 2) msg data
           = io_bind (await ops (response ops (Spread a)))
               (\<lambda>res. io_return (Some \<lparr>res_stop = False,
                                        res_data = Some (data(Key_res \<mapsto> Res res))\<rparr>)))
   \<and> (data_answer data = None \<longrightarrow>
         (askAIForAnswerSteps ops this ! 2) msg data = io_return None)
   \<and> (data_answer data \<noteq> None \<and> data_res data = None \<and> \<not> audioBeep ops w
         \<and> streamResponse ops w \<longrightarrow>
         (askAIForAnswerSteps ops this ! 3) msg data w
           = io_bind (speak ops (onAIReplied this) say) (\<lambda>_. io_return None) w)
   \<and> (\<not> (data_answer data \<noteq> None \<and> data_res data = None \<and> \<not> audioBeep ops w
            \<and> streamResponse ops w) \<longrightarrow>
         (askAIForAnswerSteps ops this ! 3) msg data w = (Inr None, w))
   \<and> (data_res data = Some (ascii ''error'') \<longrightarrow>
         (askAIForAnswerSteps ops this ! 4) msg data
           = io_bind (speak ops (onAIError this) (\<lambda>t. (say t)\<lparr>opt_audio := audioError this\<rparr>))
               (\<lambda>_. io_return None))
   \<and> (data_res data \<noteq> Some (ascii ''error'') \<longrightarrow>
         (askAIForAnswerSteps ops this ! 4) msg data = io_return None)
   \<and> (keepAlive ops w \<longrightarrow>
         (askAIForAnswerSteps ops this ! 5) msg data w
           = io_bind (await ops (wakeUp ops)) (\<lambda>_. io_return None) w)
   \<and> (\<not> keepAlive ops w \<longrightarrow>
         (askAIForAnswerSteps ops this ! 5) msg data w = (Inr None, w))
   \<and> (\<forall>i r w'. i < 6 \<and> (askAIForAnswerSteps ops this ! i) msg data w = (Inr (Some r), w')
         \<longrightarrow> \<not> res_stop r)
   \<and> (outcome (askAIForAnswer_run ops this msg w) = Inr Completed \<longrightarrow>
         map fst (completed (askAIForAnswer_run ops this msg w)) = [0, 1, 2, 3, 4, 5])"
proof -
  have s3a: "\<forall>a. data_answer data = Some a \<longrightarrow>
         (askAIForAnswerSteps ops this ! 2) msg data
           = io_bind (await ops (response ops (Spread a)))
               (\<lambda>res. io_return (Some \<lparr>res_stop = False,
                                        res_data = Some (data(Key_res \<mapsto> Res res))\<rparr>))"
    by (simp add: step3)
  have s3b: "data_answer data = None \<longrightarrow>
         (askAIForAnswerSteps ops this ! 2) msg data = io_return None"
    by (simp add: step3)
  have stop: "\<forall>i r w'. i < 6 \<and> (askAIForAnswerSteps ops this ! i) msg data w = (Inr (Some r), w')
         \<longrightarrow> \<not> res_stop r"
  proof (intro allI impI, elim conjE)
    fix i r w'
    assume "i < 6" and "(askAIForAnswerSteps ops this ! i) msg data w = (Inr (Some r), w')"
    then show "\<not> res_stop r" by (rule steps_never_stop)
  qed
  have all: "outcome (askAIForAnswer_run ops this msg w) = Inr Completed \<longrightarrow>
         map fst (completed (askAIForAnswer_run ops this msg w)) = [0, 1, 2, 3, 4, 5]"
    by (rule impI) (rule completed_run_all_steps)
  show ?thesis
    using steps_length [of ops this] step1 [of ops this msg data] step2 [of ops this msg data]
      s3a s3b step4 [of ops this msg data w] step5 [of ops this msg data]
      step6 [of ops this msg data w] stop all
    by (simp only: simp_thms if_True if_False split: if_splits) 
qed

text \<open>
  On the stand-in speaker in keep-alive mode, with a model that answers: all six steps
  run, and the calls are the thinking phrase, the model, the playback of the answer, the
  done phrase and the re-wake.
\<close>

theorem askAIForAnswerSteps_fixed_witness:
  "map fst (completed (askAIForAnswer_run demo_ops (demo_speaker (Some demo_answers)) demo_msg
                         (demo_idle\<lparr>demo_keepAlive := True\<rparr>))) = [0, 1, 2, 3, 4, 5]
   \<and> demo_trace (world (askAIForAnswer_run demo_ops (demo_speaker (Some demo_answers)) demo_msg
                           (demo_idle\<lparr>demo_keepAlive := True\<rparr>)))
       = [Response (Options (say [0x8BA9, 0x6211, 0x5148, 0x60F3, 0x60F3])),
          AskAI (msg_text demo_msg),
          Response (Spread (ascii ''fine'')),
          Response (Options (say [0x6211, 0x8BF4, 0x5B8C, 0x4E86])),
          WakeUp]"
proof -
  let ?run = "askAIForAnswer_run demo_ops (demo_speaker (Some demo_answers)) demo_msg
                (demo_idle\<lparr>demo_keepAlive := True\<rparr>)"
  have finished: "outcome ?run = Inr Completed"
    by (simp add: askAIForAnswer_run_def askAIForAnswerSteps_def demo_speaker_fields io_defs
          demo_defs data_answer_def data_res_def)
  have trace: "demo_trace (world ?run)
       = [Response (Options (say [0x8BA9, 0x6211, 0x5148, 0x60F3, 0x60F3])),
          AskAI (msg_text demo_msg),
          Response (Spread (ascii ''fine'')),
          Response (Options (say [0x6211, 0x8BF4, 0x5B8C, 0x4E86])),
          WakeUp]"
    by (simp add: askAIForAnswer_run_def askAIForAnswerSteps_def demo_speaker_fields io_defs
          demo_defs data_answer_def data_res_def)
  from askAIForAnswerSteps_fixed
    [where ops = demo_ops and this = "demo_speaker (Some demo_answers)" and msg = demo_msg
       and w = "demo_idle\<lparr>demo_keepAlive := True\<rparr>"]
  have "outcome ?run = Inr Completed \<longrightarrow> map fst (completed ?run) = [0, 1, 2, 3, 4, 5]"
    by blast
  with finished trace show ?thesis by simp
qed

section \<open>A step that throws\<close>

text \<open>
  Claim C6, as stated, fails: on the stand-in speaker in keep-alive mode, with a model
  whose call rejects, \<open>askAIForAnswer\<close> rejects with the model's error, and after the
  thinking phrase and the call of the model nothing runs, not even the re-wake of step 6.
\<close>

theorem askAIForAnswer_failure_escapes_counterexample:
  "fst (askAIForAnswer demo_ops (demo_speaker (Some demo_rejects)) demo_msg
          (demo_idle\<lparr>demo_keepAlive := True\<rparr>))
      = Inl (Error (ascii ''offline''))
   \<and> demo_trace (snd (askAIForAnswer demo_ops (demo_speaker (Some demo_rejects)) demo_msg
                         (demo_idle\<lparr>demo_keepAlive := True\<rparr>)))
      = [Response (Options (say [0x8BA9, 0x6211, 0x5148, 0x60F3, 0x60F3])),
         AskAI (msg_text demo_msg)]"
  by (simp add: askAIForAnswer_def askAIForAnswer_run_def askAIForAnswerSteps_def
        demo_speaker_fields io_defs demo_defs)

text \<open>
  Claim C6, amended. If the steps before step \<open>k\<close> ran without interruption, leaving the
  bag \<open>data\<close> and the world \<open>wk\<close>, and step \<open>k\<close> throws \<open>e\<close>, then \<open>askAIForAnswer\<close>
  rejects with \<open>e\<close> in the world of the throw, only the steps before \<open>k\<close> have returned,
  and the bag is as it was before step \<open>k\<close>.
\<close>

theorem askAIForAnswer_step_throws:
  assumes "k < length (askAIForAnswerSteps ops this)"
    and "outcome (run_steps ops msg (checkIfHasNewMsg ops msg w) 0
            (take k (askAIForAnswerSteps ops this)) Map.empty w) = Inr Completed"
    and "bag (run_steps ops msg (checkIfHasNewMsg ops msg w) 0
            (take k (askAIForAnswerSteps ops this)) Map.empty w) = data"
    and "world (run_steps ops msg (checkIfHasNewMsg ops msg w) 0
            (take k (askAIForAnswerSteps ops this)) Map.empty w) = wk"
    and "await ops ((askAIForAnswerSteps ops this ! k) msg data) wk = (Inl e, w')"
  shows "askAIForAnswer ops this msg w = (Inl e, w')
    \<and> map fst (completed (askAIForAnswer_run ops this msg w)) = [0 ..< k]
    \<and> bag (askAIForAnswer_run ops this msg w) = data"
proof -
  let ?S = "askAIForAnswerSteps ops this"
  let ?hn = "checkIfHasNewMsg ops msg w"
  let ?pre = "run_steps ops msg ?hn 0 (take k ?S) Map.empty w"
  have split: "?S = take k ?S @ (?S ! k) # drop (Suc k) ?S"
    using assms(1) by (simp add: id_take_nth_drop [symmetric])
  have len: "length (take k ?S) = k"
    using assms(1) by simp
  have "askAIForAnswer_run ops this msg w = run_steps ops msg ?hn 0 ?S Map.empty w"
    by (simp add: askAIForAnswer_run_def)
  also have "\<dots> = run_steps ops msg ?hn 0 (take k ?S @ (?S ! k) # drop (Suc k) ?S) Map.empty w"
    using split by simp
  also have "\<dots> = (run_steps ops msg ?hn k ((?S ! k) # drop (Suc k) ?S) data wk)
                      \<lparr>completed := completed ?pre
                          @ completed (run_steps ops msg ?hn k ((?S ! k) # drop (Suc k) ?S) data wk)\<rparr>"
    using assms(2-4) len by (simp add: run_steps_append Let_def)
  also have "run_steps ops msg ?hn k ((?S ! k) # drop (Suc k) ?S) data wk
               = \<lparr>outcome = Inl e, completed = [], bag = data, world = w'\<rparr>"
    using assms(5) by simp
  finally have run: "askAIForAnswer_run ops this msg w
      = \<lparr>outcome = Inl e, completed = completed ?pre, bag = data, world = w'\<rparr>"
    by simp
  have "length (completed ?pre) = k"
    using run_steps_all_completed [OF assms(2)] len by simp
  then have "map fst (completed ?pre) = [0 ..< k]"
    using run_steps_completed_indices [of ops msg ?hn 0 "take k ?S" Map.empty w] by simp
  with run show ?thesis
    by (simp add: askAIForAnswer_def)
qed

theorem askAIForAnswer_step_throws_witness:
  "askAIForAnswer demo_ops (demo_speaker (Some demo_rejects)) demo_msg demo_idle
     = (Inl (Error (ascii ''offline'')),
        demo_did (AskAI (msg_text demo_msg))
          (demo_did (Response (Options (say [0x8BA9, 0x6211, 0x5148, 0x60F3, 0x60F3]))) demo_idle))
   \<and> map fst (completed (askAIForAnswer_run demo_ops (demo_speaker (Some demo_rejects))
                           demo_msg demo_idle)) = [0]"
proof -
  let ?sp = "demo_speaker (Some demo_rejects)"
  let ?w1 = "demo_did (Response (Options (say [0x8BA9, 0x6211, 0x5148, 0x60F3, 0x60F3]))) demo_idle"
  let ?pre = "run_steps demo_ops demo_msg (checkIfHasNewMsg demo_ops demo_msg demo_idle) 0
                (take 1 (askAIForAnswerSteps demo_ops ?sp)) Map.empty demo_idle"
  have pre: "?pre = \<lparr>outcome = Inr Completed, completed = [(0, ?w1)], bag = Map.empty, world = ?w1\<rparr>"
    by (simp add: askAIForAnswerSteps_def demo_speaker_fields io_defs demo_defs)
  have 1: "1 < length (askAIForAnswerSteps demo_ops ?sp)"
    by (simp add: steps_length)
  have 2: "outcome ?pre = Inr Completed" and 3: "bag ?pre = Map.empty" and 4: "world ?pre = ?w1"
    unfolding pre by simp_all
  have 5: "await demo_ops ((askAIForAnswerSteps demo_ops ?sp ! 1) demo_msg Map.empty) ?w1
             = (Inl (Error (ascii ''offline'')), demo_did (AskAI (msg_text demo_msg)) ?w1)"
    unfolding step2 by (simp add: demo_speaker_fields io_defs demo_defs)
  from askAIForAnswer_step_throws [OF 1 2 3 4 5] show ?thesis
    by (simp add: upt_rec)
qed

section \<open>Entering keep-alive mode\<close>

text \<open>
  Claim C9. When \<open>streamResponse\<close> is off, \<open>enterKeepAlive\<close> is one awaited call of
  \<open>response\<close> with the notice and nothing else: its outcome does not depend on the base
  class's \<open>enterKeepAlive\<close> or on \<open>pickOne\<close> (they are not called), and any property of the
  world that \<open>response\<close> preserves, such as not being in keep-alive mode, still holds
  afterwards. When \<open>streamResponse\<close> is on, it speaks a phrase of \<open>onEnterAI\<close> and then
  awaits the base class's \<open>enterKeepAlive\<close>; so the base class's method is reached only
  then.
\<close>

theorem enterKeepAlive_needs_streamResponse:
  "(\<not> streamResponse ops w \<longrightarrow>
      enterKeepAlive ops this w
        = (case response ops (Options (say stream_off_notice)) w of
             (Inl e, w') \<Rightarrow> (Inl e, resume ops w')
           | (Inr _, w') \<Rightarrow> (Inr (), resume ops w'))
      \<and> enterKeepAlive (ops\<lparr>super_enterKeepAlive := enter, pickOne := pick\<rparr>) this w
          = enterKeepAlive ops this w
      \<and> (P w \<and> (\<forall>a v. P v \<longrightarrow> P (resume ops (snd (response ops a v))))
           \<longrightarrow> P (snd (enterKeepAlive ops this w))))
   \<and> (streamResponse ops w \<longrightarrow>
        enterKeepAlive ops this w
          = io_bind (speak ops (onEnterAI this) (\<lambda>t. (say t)\<lparr>opt_keepAlive := Some True\<rparr>))
              (\<lambda>_. await ops (super_enterKeepAlive ops)) w)"
proof -
  have stream_off: "enterKeepAlive ops this w
        = (case response ops (Options (say stream_off_notice)) w of
             (Inl e, w') \<Rightarrow> (Inl e, resume ops w')
           | (Inr _, w') \<Rightarrow> (Inr (), resume ops w'))"
    if "\<not> streamResponse ops w"
    using that by (auto simp: enterKeepAlive_def io_defs split: prod.splits sum.splits)
  have indep: "enterKeepAlive (ops\<lparr>super_enterKeepAlive := enter, pickOne := pick\<rparr>) this w
          = enterKeepAlive ops this w"
    if "\<not> streamResponse ops w"
    using that by (simp add: enterKeepAlive_def io_defs)
  have preserved: "P (snd (enterKeepAlive ops this w))"
    if "\<not> streamResponse ops w" and "P w"
      and "\<forall>a v. P v \<longrightarrow> P (resume ops (snd (response ops a v)))"
  proof -
    from that(2,3)
    have "P (resume ops (snd (response ops (Options (say stream_off_notice)) w)))"
      by blast
    then show ?thesis
      unfolding stream_off [OF that(1)] by (auto split: prod.splits sum.splits)
  qed
  have stream_on: "enterKeepAlive ops this w
          = io_bind (speak ops (onEnterAI this) (\<lambda>t. (say t)\<lparr>opt_keepAlive := Some True\<rparr>))
              (\<lambda>_. await ops (super_enterKeepAlive ops)) w"
    if "streamResponse ops w"
    using that by (simp add: enterKeepAlive_def io_bind_assoc [symmetric] speak_eq)
  from stream_off indep preserved stream_on show ?thesis by blast
qed

text \<open>
  On the stand-in speaker: with streaming off only the notice is said and the speaker
  stays out of keep-alive mode; with streaming on the welcome is said and the base class
  is called.
\<close>

theorem enterKeepAlive_needs_streamResponse_witness:
  "enterKeepAlive demo_ops (demo_speaker None) (demo_idle\<lparr>demo_streamResponse := False\<rparr>)
     = (Inr (), demo_did (Response (Options (say stream_off_notice)))
                  (demo_idle\<lparr>demo_streamResponse := False\<rparr>))
   \<and> \<not> demo_keepAlive (snd (enterKeepAlive demo_ops (demo_speaker None)
                                (demo_idle\<lparr>demo_streamResponse := False\<rparr>)))
   \<and> demo_trace (snd (enterKeepAlive demo_ops (demo_speaker None) demo_idle))
       = [Response (Options ((say [0x4F60, 0x597D, 0xFF0C, 0x6211, 0x662F, 0x50BB, 0x599E,
                                  0xFF0C, 0x5F88, 0x9AD8, 0x5174, 0x8BA4, 0x8BC6, 0x4F60])
                               \<lparr>opt_keepAlive := Some True\<rparr>)),
          SuperEnterKeepAlive]"
proof -
  let ?w_off = "demo_idle\<lparr>demo_streamResponse := False\<rparr>"
  have 1: "\<not> streamResponse demo_ops ?w_off"
    by (simp add: demo_defs)
  have 2: "streamResponse demo_ops demo_idle"
    by (simp add: demo_defs)
  note inst = enterKeepAlive_needs_streamResponse
    [where ops = demo_ops and this = "demo_speaker None" and P = "\<lambda>w. \<not> demo_keepAlive w"]
  from inst [where w = "?w_off"] 1
  have a: "enterKeepAlive demo_ops (demo_speaker None) ?w_off
        = (case response demo_ops (Options (say stream_off_notice)) ?w_off of
             (Inl e, w') \<Rightarrow> (Inl e, resume demo_ops w')
           | (Inr _, w') \<Rightarrow> (Inr (), resume demo_ops w'))"
    by blast
  from inst [where w = demo_idle] 2
  have b: "enterKeepAlive demo_ops (demo_speaker None) demo_idle
          = io_bind (speak demo_ops (onEnterAI (demo_speaker None))
                       (\<lambda>t. (say t)\<lparr>opt_keepAlive := Some True\<rparr>))
              (\<lambda>_. await demo_ops (super_enterKeepAlive demo_ops)) demo_idle"
    by blast
  show ?thesis
    unfolding a b
    by (simp add: demo_speaker_fields io_defs speak_def demo_ops_def demo_did_def demo_idle_def)
qed

section \<open>The order of the commands\<close>

text \<open>
  Claim C2. The list that \<open>commands\<close> returns has the caller's commands between three
  commands in front and one behind:
  (1) the first matches when \<open>keepAlive\<close> is off and a wake-up keyword is a prefix of the
      text, and runs \<open>enterKeepAlive\<close>;
  (2) the second matches when \<open>keepAlive\<close> is on and an exit keyword is a prefix of the
      text, and runs \<open>exitKeepAlive\<close>;
  (3) the third matches when a speaker-switch keyword is a prefix of the text;
  (4) then come the registered commands, in their order;
  (5) the last matches when \<open>keepAlive\<close> is on or a call keyword is a prefix of the text,
      and runs \<open>askAIForAnswer\<close>.
\<close>

theorem commands_order:
  "length (commands ops this w) = 4 + length (custom_commands ops w)
   \<and> cmd_match (commands ops this w ! 0) msg w'
       = (\<not> keepAlive ops w' \<and> (\<exists>e \<in> set (wakeUpKeywords this). prefix e (msg_text msg)))
   \<and> cmd_run (commands ops this w ! 0) msg = enterKeepAlive ops this
   \<and> cmd_match (commands ops this w ! 1) msg w'
       = (keepAlive ops w' \<and> (\<exists>e \<in> set (exitKeywords this). prefix e (msg_text msg)))
   \<and> cmd_run (commands ops this w ! 1) msg = exitKeepAlive ops this
   \<and> cmd_match (commands ops this w ! 2) msg w'
       = (\<exists>e \<in> set (switchSpeakerKeywords this). prefix e (msg_text msg))
   \<and> cmd_run (commands ops this w ! 2) msg = switchSpeaker_run ops this msg
   \<and> take (length (custom_commands ops w)) (drop 3 (commands ops this w))
       = custom_commands ops w
   \<and> cmd_match (commands ops this w ! (3 + length (custom_commands ops w))) msg w'
       = (keepAlive ops w' \<or> (\<exists>e \<in> set (callAIKeywords this). prefix e (msg_text msg)))
   \<and> cmd_run (commands ops this w ! (3 + length (custom_commands ops w))) msg
       = askAIForAnswer ops this msg"
  by (simp add: commands_def list_ex_startsWith nth_append)

text \<open>
  On the stand-in speaker, with the default keywords: the wake-up text matches the first
  command only out of keep-alive mode, the exit text matches the second in keep-alive
  mode, and a text that starts with a call keyword matches the last.
\<close>

theorem commands_order_witness:
  "cmd_match (commands demo_ops (demo_speaker None) demo_idle ! 0)
      \<lparr>msg_text = [0x6253, 0x5F00, 0x50BB, 0x599E], msg_timestamp = 0\<rparr> demo_idle
   \<and> \<not> cmd_match (commands demo_ops (demo_speaker None) demo_idle ! 0)
      \<lparr>msg_text = [0x6253, 0x5F00, 0x50BB, 0x599E], msg_timestamp = 0\<rparr>
      (demo_idle\<lparr>demo_keepAlive := True\<rparr>)
   \<and> cmd_match (commands demo_ops (demo_speaker None) demo_idle ! 1)
      \<lparr>msg_text = [0x5173, 0x95ED, 0x50BB, 0x599E], msg_timestamp = 0\<rparr>
      (demo_idle\<lparr>demo_keepAlive := True\<rparr>)
   \<and> cmd_match (commands demo_ops (demo_speaker None) demo_idle ! 3) demo_msg demo_idle
   \<and> length (commands demo_ops (demo_speaker None) demo_idle) = 4"
proof -
  have none: "custom_commands demo_ops demo_idle = []"
    by (simp add: demo_ops_def)
  note inst = commands_order [where ops = demo_ops and this = "demo_speaker None"
                and w = demo_idle, unfolded none]
  show ?thesis
    using inst [where msg = "\<lparr>msg_text = [0x6253, 0x5F00, 0x50BB, 0x599E], msg_timestamp = 0\<rparr>"
                  and w' = demo_idle]
      inst [where msg = "\<lparr>msg_text = [0x6253, 0x5F00, 0x50BB, 0x599E], msg_timestamp = 0\<rparr>"
                  and w' = "demo_idle\<lparr>demo_keepAlive := True\<rparr>"]
      inst [where msg = "\<lparr>msg_text = [0x5173, 0x95ED, 0x50BB, 0x599E], msg_timestamp = 0\<rparr>"
                  and w' = "demo_idle\<lparr>demo_keepAlive := True\<rparr>"]
      inst [where msg = demo_msg and w' = demo_idle]
    by (simp add: demo_speaker_fields demo_ops_def demo_idle_def demo_msg_def)
qed


section \<open>The abort registry\<close>

lemma init_keeps:
  "abortCallbacks (init env c) = abortCallbacks c"
  "aborted (init env c) = aborted c"
  "outside (init env c) = outside c"
  by (simp_all add: init_def Let_def split: option.splits)

lemma unregister_simps:
  "abortCallbacks (unregister requestId c) = (abortCallbacks c)(requestId := None)"
  "aborted (unregister requestId c) = aborted c"
  "outside (unregister requestId c) = outside c"
  by (simp_all add: unregister_def)

lemma register_simps:
  "abortCallbacks (register requestId h c) = (abortCallbacks c)(requestId \<mapsto> h)"
  "aborted (register requestId h c) = aborted c"
  "outside (register requestId h c) = outside c"
  by (simp_all add: register_def)

lemma run_callback_simps:
  "abortCallbacks (run_callback h c) = abortCallbacks c"
  "aborted (run_callback h c) = aborted c @ [h]"
  "outside (run_callback h c) = outside c"
  by (simp_all add: run_callback_def)

text \<open>The request ids at which \<^verbatim>\<open>Object.prototype\<close> answers, and what its functions do.\<close>

lemma Object_prototype_object:
  "(Object_prototype key :: ('h, 'x) property) = Object_value \<longleftrightarrow> key = ascii ''__proto__''"
  by (simp add: Object_prototype_def)

lemma Object_prototype_function:
  assumes "Object_prototype key = Function call"
  shows "call c = (Inl TypeError, c) \<and> key \<in> set (map ascii [''__defineGetter__'', ''__defineSetter__''])
       \<or> (\<exists>c'. call c = (Inr (), c') \<and> abortCallbacks c' = abortCallbacks c
                \<and> outside c' = outside c
                \<and> key \<notin> set (map ascii [''__proto__'', ''__defineGetter__'', ''__defineSetter__'']))"
  using assms
  by (auto simp: Object_prototype_def run_callback_simps split: if_splits option.splits)

lemma cancel_registered:
  "abortCallbacks c requestId = Some callback \<Longrightarrow>
     cancel env requestId c
       = (Inr (), unregister requestId (run_callback callback (init env c)))"
  by (simp add: cancel_def Let_def init_keeps)

lemma cancel_absent:
  fixes c :: "('h, 'x) client_world"
  shows "abortCallbacks c requestId = None
     \<Longrightarrow> (Object_prototype requestId :: ('h, 'x) property) = Absent
     \<Longrightarrow> cancel env requestId c = (Inr (), init env c)"
  by (simp add: cancel_def Let_def init_keeps)

lemma cancel_outside:
  fixes c :: "('h, 'x) client_world"
  shows "outside (snd (cancel env requestId c)) = outside c"
proof (cases "abortCallbacks c requestId")
  case (Some callback)
  then show ?thesis
    by (simp add: cancel_registered init_keeps unregister_simps run_callback_simps)
next
  case None
  show ?thesis
  proof (cases "Object_prototype requestId :: ('h, 'x) property")
    case (Function call)
    from Object_prototype_function [OF this, of "init env c"] None Function show ?thesis
      by (auto simp: cancel_def Let_def init_keeps unregister_simps)
  qed (use None in \<open>simp_all add: cancel_def Let_def init_keeps\<close>)
qed

lemma cancel_entry_gone:
  fixes c :: "('h, 'x) client_world"
  shows "abortCallbacks (snd (cancel env requestId c)) requestId = None"
proof (cases "abortCallbacks c requestId")
  case (Some callback)
  then show ?thesis
    by (simp add: cancel_registered init_keeps unregister_simps run_callback_simps)
next
  case None
  show ?thesis
  proof (cases "Object_prototype requestId :: ('h, 'x) property")
    case (Function call)
    from Object_prototype_function [OF this, of "init env c"] None Function show ?thesis
      by (auto simp: cancel_def Let_def init_keeps unregister_simps)
  qed (use None in \<open>simp_all add: cancel_def Let_def init_keeps\<close>)
qed

text \<open>
  \<open>cancel\<close> throws for three request ids when they have no callback, and only then; what
  it throws is a \<open>TypeError\<close>.
\<close>

lemma cancel_throws_iff:
  fixes c :: "('h, 'x) client_world"
  shows "fst (cancel env requestId c) = Inl e \<longleftrightarrow>
     e = TypeError \<and> abortCallbacks c requestId = None
     \<and> requestId \<in> set (map ascii [''__proto__'', ''__defineGetter__'', ''__defineSetter__''])"
proof (cases "abortCallbacks c requestId")
  case (Some callback)
  then show ?thesis by (simp add: cancel_registered)
next
  case None
  show ?thesis
  proof (cases "Object_prototype requestId :: ('h, 'x) property")
    case Absent
    then have "requestId \<notin> set (map ascii [''__proto__'', ''__defineGetter__'', ''__defineSetter__''])"
      by (auto simp: Object_prototype_def split: if_splits)
    with None Absent show ?thesis
      by (simp add: cancel_absent)
  next
    case Object_value
    then have "requestId = ascii ''__proto__''"
      by (simp add: Object_prototype_object)
    with None Object_value show ?thesis
      by (auto simp: cancel_def Let_def init_keeps)
  next
    case (Function call)
    from Object_prototype_function [OF this, of "init env c"] None Function show ?thesis
      by (auto simp: cancel_def Let_def init_keeps)
  qed
qed

text \<open>
  What \<open>cancel\<close> does at the other request ids. If a callback is registered for the id, it
  is called once (its controller is appended to \<open>aborted\<close>) and its key is deleted, the
  other keys staying. If none is registered and the id names no property of
  \<^verbatim>\<open>Object.prototype\<close>, no callback is called and the registry is unchanged (all the call
  does is the lazy \<open>_init()\<close> every method starts with). Whatever the id, the registry has
  no own key for it afterwards, and nothing outside the client changes.
\<close>

lemma cancel_contract:
  fixes c :: "('h, 'x) client_world"
  shows "(\<forall>callback. abortCallbacks c requestId = Some callback \<longrightarrow>
       fst (cancel env requestId c) = Inr ()
       \<and> aborted (snd (cancel env requestId c)) = aborted c @ [callback]
       \<and> abortCallbacks (snd (cancel env requestId c)) = (abortCallbacks c)(requestId := None))
   \<and> (abortCallbacks c requestId = None
        \<and> (Object_prototype requestId :: ('h, 'x) property) = Absent \<longrightarrow>
       cancel env requestId c = (Inr (), init env c)
       \<and> aborted (snd (cancel env requestId c)) = aborted c
       \<and> abortCallbacks (snd (cancel env requestId c)) = abortCallbacks c)
   \<and> abortCallbacks (snd (cancel env requestId c)) requestId = None
   \<and> outside (snd (cancel env requestId c)) = outside c"
  by (simp add: cancel_registered cancel_absent init_keeps unregister_simps run_callback_simps
        cancel_outside cancel_entry_gone)

text \<open>With controller 5 registered for \<open>r1\<close>: cancelling \<open>r1\<close> aborts it, cancelling \<open>r2\<close> does nothing.\<close>

lemma cancel_contract_example:
  "aborted (snd (cancel demo_env (ascii ''r1'') (register (ascii ''r1'') 5 (demo_client ())))) = [5]
   \<and> abortCallbacks (snd (cancel demo_env (ascii ''r1'') (register (ascii ''r1'') 5 (demo_client ()))))
        (ascii ''r1'') = None
   \<and> cancel demo_env (ascii ''r2'') (register (ascii ''r1'') 5 (demo_client ()))
       = (Inr (), init demo_env (register (ascii ''r1'') 5 (demo_client ())))
   \<and> abortCallbacks (snd (cancel demo_env (ascii ''r2'') (register (ascii ''r1'') 5 (demo_client ()))))
        (ascii ''r1'') = Some 5"
  by (simp add: cancel_def Object_prototype_def run_callback_def init_def register_def
        unregister_def Let_def demo_client_def demo_env_def ascii_def)

text \<open>
  Claim C5 does not hold of the code: without a callback for the request id, \<open>cancel\<close> is
  a no-op only when the id names no property of \<^verbatim>\<open>Object.prototype\<close>. The test of line 51
  reads inherited properties too, where the loop of \<open>chatStream\<close> asks
  \<^verbatim>\<open>Object.keys\<close> (line 161). Here the client has made its SDK client and its registry
  is empty. For the request id \<^verbatim>\<open>__proto__\<close> the test finds \<^verbatim>\<open>Object.prototype\<close>, an
  object; calling it throws a \<open>TypeError\<close>, which \<open>cancel\<close> throws on. For
  \<^verbatim>\<open>__defineGetter__\<close> the function found is called without arguments and throws. The
  registry stays empty.
\<close>

theorem cancel_unregistered_inherited_name_throws:
  "dom (abortCallbacks ((demo_client ())\<lparr>client := Some OpenAI\<rparr>)) = {}
   \<and> cancel demo_env (ascii ''__proto__'') ((demo_client ())\<lparr>client := Some OpenAI\<rparr>)
       = (Inl TypeError, (demo_client ())\<lparr>client := Some OpenAI\<rparr>)
   \<and> cancel demo_env (ascii ''__defineGetter__'') ((demo_client ())\<lparr>client := Some OpenAI\<rparr>)
       = (Inl TypeError, (demo_client ())\<lparr>client := Some OpenAI\<rparr>)"
  by (simp add: cancel_def Object_prototype_def init_def Let_def demo_client_def demo_env_def
        ascii_def)

section \<open>The registry after a call\<close>

lemmas demo_client_defs =
  demo_sdk_def demo_env_def demo_options_def demo_client_def demo_stream_def demo_id_def
  ascii_def

lemmas chat_eval =
  chatStream_def chat_def init_def cancel_def Object_prototype_def run_callback_def
  register_def unregister_def Let_def demo_client_defs

text \<open>
  Claim C4 does not hold of the code: \<open>chatStream\<close> deletes the key after the loop (lines
  173-175), and an exception of the loop is not caught, so these lines are skipped when
  the iterator of the stream or \<open>onStream\<close> throws; \<open>chat\<close> catches the failure of its
  request before it deletes the key. Here the registry is empty when \<open>chatStream\<close> is
  called with the request id \<open>r1\<close>; the stream, with controller 1, yields the chunk
  \<open>Hel\<close>, and then its iterator throws. \<open>chatStream\<close> rejects with what was thrown, and
  the registry still has the entry for \<open>r1\<close>.
\<close>

theorem chatStream_rejects_entry_stays:
  "dom (abortCallbacks (demo_client ())) = {}
   \<and> fst (chatStream
          (demo_sdk (Inr (demo_stream [(\<lambda>c. c, [Some (ascii ''Hel'')])]
                                      (\<lambda>c. c, Some (Error (ascii ''reset''))))))
          demo_env (demo_options (Some demo_id)) None (demo_client ()))
     = Inl (Error (ascii ''reset''))
   \<and> abortCallbacks (snd (chatStream
          (demo_sdk (Inr (demo_stream [(\<lambda>c. c, [Some (ascii ''Hel'')])]
                                      (\<lambda>c. c, Some (Error (ascii ''reset''))))))
          demo_env (demo_options (Some demo_id)) None (demo_client ()))) demo_id = Some 1"
  by (simp add: chat_eval)

text \<open>
  The same when \<open>onStream\<close> throws at the first chunk.
\<close>

lemma chatStream_onStream_throws_example:
  "fst (chatStream
          (demo_sdk (Inr (demo_stream [(\<lambda>c. c, [Some (ascii ''Hel'')])] (\<lambda>c. c, None))))
          demo_env (demo_options (Some demo_id))
          (Some (\<lambda>text c. (Inl (Error (ascii ''speaker'')), c))) (demo_client ()))
     = Inl (Error (ascii ''speaker''))
   \<and> abortCallbacks (snd (chatStream
          (demo_sdk (Inr (demo_stream [(\<lambda>c. c, [Some (ascii ''Hel'')])] (\<lambda>c. c, None))))
          demo_env (demo_options (Some demo_id))
          (Some (\<lambda>text c. (Inl (Error (ascii ''speaker'')), c))) (demo_client ()))) demo_id
     = Some 1"
  by (simp add: chat_eval)

text \<open>
  In general: when the loop throws, \<open>chatStream\<close> rejects in the world in which the loop
  threw, with nothing deleted.
\<close>

lemma chatStream_loop_throws:
  assumes "chat_requestId options = Some requestId" and "requestId \<noteq> []"
    and "create_stream sdk
           (build_request sdk env options (init env c) True
              (or_default (chat_enableSearch options) (QWEN_ENABLE_SEARCH env)))
           (init env c) = (Inr stream, c2)"
    and "consume (Some requestId) onStream (closing stream) (events stream) (ending stream) []
           (register requestId (controller stream) c2) = (Inl e, c4)"
  shows "chatStream sdk env options onStream c = (Inl e, c4)"
  using assms by (simp add: chatStream_def Let_def)

text \<open>
  What does hold is about the calls that return. For a call with a non-empty request id:
  after \<open>chat\<close> returns, whether the completion succeeded or failed, the registry has no
  entry for the id; after \<open>chatStream\<close> returns having obtained its stream, whether the
  stream ended or the abort was seen, it has none either; and when the request of
  \<open>chatStream\<close> fails, the method returns before it registers anything, so the registry
  has no entry for an id that was not registered when the call was made, nor by what ran
  while the request was awaited.
\<close>

lemma registry_clean_after_return:
  assumes "chat_requestId options = Some requestId" and "requestId \<noteq> []"
  shows "abortCallbacks (snd (chat sdk env options c)) requestId = None
    \<and> (\<forall>answer c' stream c2.
          chatStream sdk env options onStream c = (Inr answer, c')
          \<and> create_stream sdk
               (build_request sdk env options (init env c) True
                  (or_default (chat_enableSearch options) (QWEN_ENABLE_SEARCH env)))
               (init env c) = (Inr stream, c2)
          \<longrightarrow> abortCallbacks c' requestId = None)
    \<and> (\<forall>answer c'.
          chatStream sdk env options onStream c = (Inr answer, c')
          \<and> abortCallbacks c requestId = None
          \<and> (\<forall>req s. abortCallbacks s requestId = None
                 \<longrightarrow> abortCallbacks (snd (create_stream sdk req s)) requestId = None)
          \<longrightarrow> abortCallbacks c' requestId = None)"
proof -
  let ?req = "build_request sdk env options (init env c) True
                (or_default (chat_enableSearch options) (QWEN_ENABLE_SEARCH env))"
  have chat: "abortCallbacks (snd (chat sdk env options c)) requestId = None"
    using assms
    by (simp add: chat_def Let_def unregister_simps split: prod.splits)
  have got: "abortCallbacks c' requestId = None"
    if "chatStream sdk env options onStream c = (Inr answer, c')"
      and "create_stream sdk ?req (init env c) = (Inr stream, c2)"
    for answer c' stream c2
    using that assms
    by (auto simp: chatStream_def Let_def unregister_simps split: prod.splits sum.splits)
  have fresh: "abortCallbacks c' requestId = None"
    if ret: "chatStream sdk env options onStream c = (Inr answer, c')"
      and new: "abortCallbacks c requestId = None"
      and others: "\<forall>req s. abortCallbacks s requestId = None
                 \<longrightarrow> abortCallbacks (snd (create_stream sdk req s)) requestId = None"
    for answer c'
  proof (cases "create_stream sdk ?req (init env c)")
    case (Pair r c2)
    show ?thesis
    proof (cases r)
      case (Inl e)
      with Pair ret have "c' = c2"
        by (simp add: chatStream_def Let_def)
      moreover from others new have "abortCallbacks (snd (create_stream sdk ?req (init env c))) requestId = None"
        by (simp add: init_keeps)
      ultimately show ?thesis using Pair by simp
    next
      case (Inr stream)
      with Pair ret show ?thesis by (auto intro: got)
    qed
  qed
  from chat got fresh show ?thesis by blast
qed

text \<open>
  A completion that fails and one that succeeds for \<open>chat\<close>; a stream of two chunks and
  a request that fails for \<open>chatStream\<close>.
\<close>

lemma registry_clean_after_return_example:
  "chat ((demo_sdk (Inl TypeError))\<lparr>create := (\<lambda>req signal c. (Inl (Error (ascii ''offline'')), c))\<rparr>)
      demo_env (demo_options (Some demo_id)) (demo_client ())
     = (Inr None, init demo_env (demo_client ()))
   \<and> chat (demo_sdk (Inl TypeError)) demo_env (demo_options (Some demo_id)) (demo_client ())
     = (Inr (Some (ascii ''hi'')), init demo_env (demo_client ()))
   \<and> chatStream
       (demo_sdk (Inr (demo_stream [(\<lambda>c. c, [Some (ascii ''Hel'')]),
                                    (\<lambda>c. c, [Some (ascii ''lo'')])] (\<lambda>c. c, None))))
       demo_env (demo_options (Some demo_id)) None (demo_client ())
     = (Inr (Some (ascii ''Hello'')), init demo_env (demo_client ()))
   \<and> chatStream (demo_sdk (Inl (Error (ascii ''offline'')))) demo_env
       (demo_options (Some demo_id)) None (demo_client ())
     = (Inr None, init demo_env (demo_client ()))
   \<and> abortCallbacks (init demo_env (demo_client ())) demo_id = None"
proof -
  let ?stream = "demo_stream [(\<lambda>c. c, [Some (ascii ''Hel'')]), (\<lambda>c. c, [Some (ascii ''lo'')])]
                   (\<lambda>c. c, None) :: (nat, unit) chat_stream"
  let ?ok = "demo_sdk (Inr ?stream) :: (nat, unit, unit, jsstring) sdk"
  let ?ko = "demo_sdk (Inl (Error (ascii ''offline''))) :: (nat, unit, unit, jsstring) sdk"
  let ?down = "(demo_sdk (Inl TypeError))\<lparr>create := (\<lambda>req signal c. (Inl (Error (ascii ''offline'')), c))\<rparr>
                 :: (nat, unit, unit, jsstring) sdk"
  let ?opts = "demo_options (Some demo_id)"
  let ?c = "demo_client () :: (nat, unit) client_world"
  have 1: "chat_requestId ?opts = Some demo_id"
    by (simp add: demo_options_def)
  have 2: "demo_id \<noteq> []"
    by (simp add: demo_id_def ascii_def)
  have down: "chat ?down demo_env ?opts ?c = (Inr None, init demo_env ?c)"
    by (simp add: chat_eval)
  have up: "chat (demo_sdk (Inl TypeError)) demo_env ?opts ?c
              = (Inr (Some (ascii ''hi'')), init demo_env ?c)"
    by (simp add: chat_eval)
  have ok: "chatStream ?ok demo_env ?opts None ?c = (Inr (Some (ascii ''Hello'')), init demo_env ?c)"
    by (simp add: chat_eval)
  have ko: "chatStream ?ko demo_env ?opts None ?c = (Inr None, init demo_env ?c)"
    by (simp add: chat_eval)
  from registry_clean_after_return [OF 1 2, of ?down demo_env ?c] down
  have "abortCallbacks (init demo_env ?c) demo_id = None"
    by simp
  with down up ok ko show ?thesis by simp
qed

section \<open>The loop of \<open>chatStream\<close>\<close>

text \<open>If the first events are consumed to their end, the loop goes on with the rest.\<close>

lemma consume_append:
  "consume requestId onStream close pre (\<lambda>c. c, None) content c = (Inr (Exhausted content'), c')
     \<Longrightarrow> consume requestId onStream close (pre @ post) end content c
           = consume requestId onStream close post end content' c'"
proof (induction pre arbitrary: content c requestId onStream)
  case Nil
  then show ?case by simp
next
  case (Cons ev pre)
  obtain meanwhile chunk where ev: "ev = (meanwhile, chunk)" by (cases ev)
  from Cons.prems show ?case
    unfolding ev
    by (auto simp: Let_def Cons.IH split: if_splits option.splits prod.splits sum.splits)
qed

text \<open>
  Claim C8, as stated, fails when the entry is removed after the last chunk has arrived:
  the abort is only looked for when a chunk arrives. Here \<open>cancel\<close> runs while the loop
  waits for the end of the stream; it finds the entry and aborts controller 1, and
  \<open>chatStream\<close> returns the text collected so far.
\<close>

theorem chatStream_late_cancel_counterexample:
  "fst (chatStream
          (demo_sdk (Inr (demo_stream [(\<lambda>c. c, [Some (ascii ''Hel'')])]
                                      (\<lambda>c. snd (cancel demo_env demo_id c), None))))
          demo_env (demo_options (Some demo_id)) None (demo_client ()))
     = Inr (Some (ascii ''Hel''))
   \<and> aborted (snd (chatStream
          (demo_sdk (Inr (demo_stream [(\<lambda>c. c, [Some (ascii ''Hel'')])]
                                      (\<lambda>c. snd (cancel demo_env demo_id c), None))))
          demo_env (demo_options (Some demo_id)) None (demo_client ()))) = [1]"
  by (simp add: chat_eval)

text \<open>
  Claim C8, amended. If the chunks before some chunk were consumed to their end, and the
  entry for the request id is gone from the registry when that chunk arrives, then
  \<open>chatStream\<close> returns \<^verbatim>\<open>withDefault("", undefined)\<close> without throwing, in the world in
  which the chunk arrived, the stream closed and the key deleted: neither that chunk nor
  any later one is handed to \<open>onStream\<close>, the content collected so far is dropped, and
  the outcome does not depend on the events that were still to come. With a
  \<open>withDefault\<close> that takes the empty string for empty, the result is \<open>undefined\<close>.
\<close>

theorem chatStream_abort_seen:
  assumes "chat_requestId options = Some requestId" and "requestId \<noteq> []"
    and "create_stream sdk
           (build_request sdk env options (init env c) True
              (or_default (chat_enableSearch options) (QWEN_ENABLE_SEARCH env)))
           (init env c) = (Inr stream, c2)"
    and "events stream = pre @ (meanwhile, chunk) # post"
    and "consume (Some requestId) onStream (closing stream) pre (\<lambda>c. c, None) []
           (register requestId (controller stream) c2) = (Inr (Exhausted content), ck)"
    and "abortCallbacks (meanwhile ck) requestId = None"
  shows "chatStream sdk env options onStream c
           = (Inr (withDefault sdk []), unregister requestId (closing stream (meanwhile ck)))
    \<and> (withDefault sdk [] = None \<longrightarrow> fst (chatStream sdk env options onStream c) = Inr None)"
proof -
  have seen: "consume (Some requestId) onStream (closing stream) ((meanwhile, chunk) # post)
                (ending stream) content ck = (Inr AbortSeen, closing stream (meanwhile ck))"
    using assms(2,6) by (simp add: Let_def dom_def)
  have "consume (Some requestId) onStream (closing stream) (events stream) (ending stream) []
          (register requestId (controller stream) c2)
        = (Inr AbortSeen, closing stream (meanwhile ck))"
    unfolding assms(4) consume_append [OF assms(5)] by (rule seen)
  then have "chatStream sdk env options onStream c
           = (Inr (withDefault sdk []), unregister requestId (closing stream (meanwhile ck)))"
    using assms(1-3) by (simp add: chatStream_def Let_def)
  then show ?thesis by simp
qed

text \<open>
  A request cancelled while the loop waits for the second of three chunks: the result is
  \<open>undefined\<close>, controller 1 is aborted and the registry is empty.
\<close>

theorem chatStream_abort_seen_witness:
  "chatStream
     (demo_sdk (Inr (demo_stream [(\<lambda>c. c, [Some (ascii ''Hel'')]),
                                  (\<lambda>c. snd (cancel demo_env demo_id c), [Some (ascii ''lo'')]),
                                  (\<lambda>c. c, [Some (ascii ''!'')])]
                                 (\<lambda>c. c, None))))
     demo_env (demo_options (Some demo_id)) None (demo_client ())
   = (Inr None,
      \<lparr>deployment = None, client = Some OpenAI, abortCallbacks = Map.empty, aborted = [1],
       outside = ()\<rparr>)"
proof -
  let ?stream = "demo_stream [(\<lambda>c. c, [Some (ascii ''Hel'')]),
                              (\<lambda>c. snd (cancel demo_env demo_id c), [Some (ascii ''lo'')]),
                              (\<lambda>c. c, [Some (ascii ''!'')])]
                             (\<lambda>c. c, None) :: (nat, unit) chat_stream"
  let ?sdk = "demo_sdk (Inr ?stream) :: (nat, unit, unit, jsstring) sdk"
  let ?c2 = "init demo_env (demo_client ()) :: (nat, unit) client_world"
  let ?ck = "register demo_id 1 ?c2"
  have 1: "chat_requestId (demo_options (Some demo_id)) = Some demo_id"
    by (simp add: demo_options_def)
  have 2: "demo_id \<noteq> []"
    by (simp add: demo_id_def ascii_def)
  have 3: "create_stream ?sdk
             (build_request ?sdk demo_env (demo_options (Some demo_id)) ?c2 True
                (or_default (chat_enableSearch (demo_options (Some demo_id)))
                   (QWEN_ENABLE_SEARCH demo_env)))
             ?c2 = (Inr ?stream, ?c2)"
    by (simp add: demo_sdk_def)
  have 4: "events ?stream = [(\<lambda>c. c, [Some (ascii ''Hel'')])]
             @ (\<lambda>c. snd (cancel demo_env demo_id c), [Some (ascii ''lo'')]) # [(\<lambda>c. c, [Some (ascii ''!'')])]"
    by (simp add: demo_stream_def)
  have 5: "consume (Some demo_id) None (closing ?stream) [(\<lambda>c. c, [Some (ascii ''Hel'')])]
             (\<lambda>c. c, None) [] (register demo_id (controller ?stream) ?c2)
           = (Inr (Exhausted (ascii ''Hel'')), ?ck)"
    by (simp add: chat_eval)
  have 6: "abortCallbacks (snd (cancel demo_env demo_id ?ck)) demo_id = None"
    by (simp add: chat_eval)
  from chatStream_abort_seen [OF 1 2 3 4 5 6]
  have "chatStream ?sdk demo_env (demo_options (Some demo_id)) None (demo_client ())
          = (Inr (withDefault ?sdk []),
             unregister demo_id (closing ?stream (snd (cancel demo_env demo_id ?ck))))"
    by blast
  then show ?thesis
    by (simp add: chat_eval fun_eq_iff)
qed

section \<open>Chunks for a canceled stream\<close>

text \<open>
  Claim C7. When \<open>onStream\<close> of \<open>chatWithStreamResponse\<close> is called while the status of
  the stream object is \<^verbatim>\<open>"canceled"\<close>, it is exactly \<open>openai.cancel(requestId)\<close>: the
  stream object is left as it is, \<open>addResponse\<close> plays no part (the outcome is the same
  whatever \<open>addResponse\<close> is), and the request is cancelled, so its entry is gone and the
  callback registered for it, if there was one, has been called; with no callback for an
  id that names no property of \<^verbatim>\<open>Object.prototype\<close>, all that happens is \<open>_init()\<close>. The
  callback returns without throwing when the request is registered, and also when it is
  not, unless the id is one of the three names at which \<open>cancel\<close> throws.
\<close>

theorem onStream_while_canceled:
  fixes c :: "('h, 'x) client_world"
  shows "stream_status stream (outside c) = Canceled \<longrightarrow>
     onStream_callback stream env requestId text c = cancel env requestId c
     \<and> outside (snd (onStream_callback stream env requestId text c)) = outside c
     \<and> onStream_callback (stream\<lparr>addResponse := add\<rparr>) env requestId text c
         = onStream_callback stream env requestId text c
     \<and> abortCallbacks (snd (onStream_callback stream env requestId text c)) requestId = None
     \<and> (\<forall>callback. abortCallbacks c requestId = Some callback \<longrightarrow>
          onStream_callback stream env requestId text c
            = (Inr (), unregister requestId (run_callback callback (init env c)))
          \<and> aborted (snd (onStream_callback stream env requestId text c))
            = aborted c @ [callback])
     \<and> (abortCallbacks c requestId = None
          \<and> (Object_prototype requestId :: ('h, 'x) property) = Absent \<longrightarrow>
          onStream_callback stream env requestId text c = (Inr (), init env c))
     \<and> (requestId \<notin> set (map ascii [''__proto__'', ''__defineGetter__'', ''__defineSetter__''])
          \<longrightarrow> fst (onStream_callback stream env requestId text c) = Inr ())"
proof -
  have "fst (cancel env requestId c) = Inr ()"
    if "requestId \<notin> set (map ascii [''__proto__'', ''__defineGetter__'', ''__defineSetter__''])"
  proof (cases "fst (cancel env requestId c)")
    case (Inl e)
    with that show ?thesis by (simp only: cancel_throws_iff) simp
  qed simp
  then show ?thesis
    by (simp add: onStream_callback_def cancel_outside cancel_entry_gone cancel_registered
          cancel_absent unregister_simps run_callback_simps init_keeps)
qed

text \<open>
  A chunk for a stream object that was canceled after its first text, with controller 1
  registered for the request: the texts stay as they were and controller 1 is aborted.
\<close>

theorem onStream_while_canceled_witness:
  "onStream_callback demo_stream_object demo_env demo_id (ascii ''lo'')
      (register demo_id 1 (demo_client (Canceled, [ascii ''Hel''])))
     = cancel demo_env demo_id (register demo_id 1 (demo_client (Canceled, [ascii ''Hel''])))
   \<and> fst (onStream_callback demo_stream_object demo_env demo_id (ascii ''lo'')
                     (register demo_id 1 (demo_client (Canceled, [ascii ''Hel''])))) = Inr ()
   \<and> outside (snd (onStream_callback demo_stream_object demo_env demo_id (ascii ''lo'')
                     (register demo_id 1 (demo_client (Canceled, [ascii ''Hel''])))))
       = (Canceled, [ascii ''Hel''])
   \<and> aborted (snd (onStream_callback demo_stream_object demo_env demo_id (ascii ''lo'')
                     (register demo_id 1 (demo_client (Canceled, [ascii ''Hel'']))))) = [1]"
proof -
  let ?c = "register demo_id 1 (demo_client (Canceled, [ascii ''Hel'']))
              :: (nat, stream_status \<times> jsstring list) client_world"
  have 1: "stream_status demo_stream_object (outside ?c) = Canceled"
    by (simp add: demo_stream_object_def register_def demo_client_def)
  have 2: "abortCallbacks ?c demo_id = Some 1"
    by (simp add: register_def)
  have 3: "aborted ?c = []" and 4: "outside ?c = (Canceled, [ascii ''Hel''])"
    by (simp_all add: register_def demo_client_def)
  have 5: "demo_id \<notin> set (map ascii [''__proto__'', ''__defineGetter__'', ''__defineSetter__''])"
    by (simp add: demo_id_def ascii_def)
  from onStream_while_canceled [of demo_stream_object ?c demo_env demo_id "ascii ''lo''"] 1 2 5
  have "onStream_callback demo_stream_object demo_env demo_id (ascii ''lo'') ?c
          = cancel demo_env demo_id ?c"
    and "fst (onStream_callback demo_stream_object demo_env demo_id (ascii ''lo'') ?c) = Inr ()"
    and "outside (snd (onStream_callback demo_stream_object demo_env demo_id (ascii ''lo'') ?c))
          = outside ?c"
    and "aborted (snd (onStream_callback demo_stream_object demo_env demo_id (ascii ''lo'') ?c))
          = aborted ?c @ [1]"
    by blast+
  with 3 4 show ?thesis by simp
qed

text \<open>
  The whole chain on a stream object that is canceled from the start, for a stream of two
  chunks: the first chunk cancels the request, the second makes the loop see the abort,
  and the stream object is as it was.
\<close>

lemma chatWithStreamResponse_canceled_example:
  "outside (snd (chatWithStreamResponse
       (demo_sdk (Inr (demo_stream [(\<lambda>c. c, [Some (ascii ''Hel'')]),
                                    (\<lambda>c. c, [Some (ascii ''lo'')])] (\<lambda>c. c, None))))
       demo_env demo_stream_object (demo_options None) None demo_id
       (demo_client (Canceled, [])))) = (Canceled, [])
   \<and> aborted (snd (chatWithStreamResponse
       (demo_sdk (Inr (demo_stream [(\<lambda>c. c, [Some (ascii ''Hel'')]),
                                    (\<lambda>c. c, [Some (ascii ''lo'')])] (\<lambda>c. c, None))))
       demo_env demo_stream_object (demo_options None) None demo_id
       (demo_client (Canceled, [])))) = [1]"
  by (simp add: chatWithStreamResponse_def onStream_callback_def on_answer_def io_bind_def
        demo_stream_object_def chat_eval)

end
